theory Spec2Isabelle
  imports Complex_Main "HOL-Library.Sublist"
begin

section \<open>Data model\<close>

text \<open>
  The reader (renderer.js, epub-handler.js, pdf-handler.js) is embedded shallowly.
  JavaScript numbers that hold counts, indices and page numbers are \<open>int\<close>; the page
  estimate of the EPUB adapter multiplies by \<open>1.5\<close> and is a \<open>rat\<close> (all values that
  occur are exactly representable as doubles). Strings are \<open>string\<close>; a field that an
  object literal may leave out is an \<open>option\<close>. The third-party libraries (epub.js,
  PDF.js, the DOM) are not part of the code: what they return is a parameter of the model.
\<close>

datatype error =
    InvalidPageNumber       \<comment> \<open>\<open>new Error('Invalid page number')\<close>\<close>
  | InvalidChapterIndex     \<comment> \<open>\<open>new Error('Invalid chapter index')\<close>\<close>
  | UnsupportedFileFormat   \<comment> \<open>\<open>new Error('Unsupported file format')\<close>\<close>
  | TypeError               \<comment> \<open>reading a property of \<open>null\<close>\<close>

text \<open>
  A chapter object. The EPUB adapter writes \<open>title, href, id, pageCount, loaded\<close>, its mock
  \<open>title, href, pageCount\<close>, the PDF adapter \<open>title, pageStart, pageEnd\<close>; a field that
  the literal does not write (or writes as \<open>null\<close>) is \<open>None\<close>.
\<close>

record chapter_info =
  title :: string
  href :: "string option"
  chapter_id :: "string option"
  pageCount :: "int option"
  loaded :: "bool option"
  pageStart :: "int option"
  pageEnd :: "int option"

text \<open>
  The document descriptor that \<open>loadBook\<close> returns. Its \<open>metadata\<close> is left out: nothing
  in the reader's navigation reads it. \<open>bd_isLargeFile\<close> is \<open>None\<close> where the object literal
  has no such field.
\<close>

record book_data =
  bd_chapters :: "chapter_info list"
  bd_totalPages :: rat
  bd_isLargeFile :: "bool option"

text \<open>JavaScript truthiness of an optional string and of an optional boolean.\<close>

definition truthy_str :: "string option \<Rightarrow> bool" where
  "truthy_str v = (case v of None \<Rightarrow> False | Some s \<Rightarrow> s \<noteq> [])"

definition truthy_bool :: "bool option \<Rightarrow> bool" where
  "truthy_bool v = (case v of None \<Rightarrow> False | Some b \<Rightarrow> b)"

subsection \<open>Decimal rendering of numbers in template literals\<close>

definition digit_char :: "nat \<Rightarrow> char" where
  "digit_char d = ''0123456789'' ! d"

fun string_of_nat :: "nat \<Rightarrow> string" where
  "string_of_nat n =
     (if n < 10 then [digit_char n] else string_of_nat (n div 10) @ [digit_char (n mod 10)])"

declare string_of_nat.simps [simp del]

definition string_of_int :: "int \<Rightarrow> string" where
  "string_of_int i = (if i < 0 then CHR ''-'' # string_of_nat (nat (- i)) else string_of_nat (nat i))"

section \<open>String helpers\<close>

text \<open>
  The \<open>String.prototype\<close> methods and regular expressions the adapters use. A \<open>char\<close> is
  a code unit below 256, so the strings of the model are Latin-1 text. Among these code
  units \<open>\s\<close> and \<open>trim\<close> treat exactly the seven characters of \<open>is_ws\<close> as white space,
  and \<open>.\<close> (without the \<open>s\<close> flag) matches everything but line feed and carriage
  return. JavaScript knows further white space above U+00FF and the line terminators
  U+2028 and U+2029; text that contains them is outside the model.
\<close>

definition is_ws :: "char \<Rightarrow> bool" where
  "is_ws c = (c \<in> set [CHR 0x09, CHR 0x0A, CHR 0x0B, CHR 0x0C, CHR 0x0D, CHR 0x20, CHR 0xA0])"

definition is_line_terminator :: "char \<Rightarrow> bool" where
  "is_line_terminator c = (c = CHR 0x0A \<or> c = CHR 0x0D)"

definition trim :: "string \<Rightarrow> string" where
  "trim s = rev (dropWhile is_ws (rev (dropWhile is_ws s)))"

text \<open>\<open>items.join(' ')\<close>.\<close>

fun join_space :: "string list \<Rightarrow> string" where
  "join_space [] = []"
| "join_space [x] = x"
| "join_space (x # y # ys) = x @ CHR 0x20 # join_space (y # ys)"

text \<open>\<open>.replace(/\s+/g, ' ')\<close>: every maximal run of white space becomes one space.\<close>

function normalize_whitespace :: "string \<Rightarrow> string" where
  "normalize_whitespace [] = []"
| "normalize_whitespace (c # cs) =
     (if is_ws c then CHR 0x20 # normalize_whitespace (dropWhile is_ws cs)
      else c # normalize_whitespace cs)"
  by pat_completeness auto
termination
  by (relation "measure length") (auto simp: le_imp_less_Suc length_dropWhile_le)

text \<open>
  \<open>.replace(/(.)\1{3,}/g, '$1')\<close>: a character other than a line terminator that is
  followed by at least three copies of itself is kept once, and the search goes on
  behind the run (the quantifier is greedy, so the whole run is consumed).
\<close>

function squeeze_repeats :: "string \<Rightarrow> string" where
  "squeeze_repeats [] = []"
| "squeeze_repeats (c # cs) =
     (if \<not> is_line_terminator c \<and> 3 \<le> length (takeWhile (\<lambda>d. d = c) cs)
      then c # squeeze_repeats (dropWhile (\<lambda>d. d = c) cs)
      else c # squeeze_repeats cs)"
  by pat_completeness auto
termination
  by (relation "measure length") (auto simp: le_imp_less_Suc length_dropWhile_le)

text \<open>\<open>String.prototype.includes\<close>.\<close>

fun str_includes :: "string \<Rightarrow> string \<Rightarrow> bool" where
  "str_includes [] sub = (sub = [])"
| "str_includes (c # cs) sub = (prefix sub (c # cs) \<or> str_includes cs sub)"

subsection \<open>Removing elements by regular expression\<close>

text \<open>
  With the flag \<open>i\<close> a letter of the pattern matches its upper-case and its lower-case
  form (among code units below 256 nothing else).
\<close>

definition lower :: "char \<Rightarrow> char" where
  "lower c =
     (case map_of (zip ''ABCDEFGHIJKLMNOPQRSTUVWXYZ'' ''abcdefghijklmnopqrstuvwxyz'') c of
        Some l \<Rightarrow> l
      | None \<Rightarrow> c)"

text \<open>The lower-case pattern text \<open>p\<close> matches at the start of \<open>s\<close>, ignoring case.\<close>

definition ci_prefix :: "string \<Rightarrow> string \<Rightarrow> bool" where
  "ci_prefix p s = (map lower (take (length p) s) = p)"

text \<open>
  \<open>.*?</tag>\<close>: the lazy quantifier stops at the first closing tag; \<open>.\<close> does not match
  a line terminator, so a line terminator before the first closing tag makes the match
  fail. The result is the input behind the closing tag.
\<close>

fun find_close :: "string \<Rightarrow> string \<Rightarrow> string option" where
  "find_close tag [] = None"
| "find_close tag (c # cs) =
     (if ci_prefix (''</'' @ tag @ ''>'') (c # cs) then Some (drop (length tag + 3) (c # cs))
      else if is_line_terminator c then None
      else find_close tag cs)"

text \<open>
  \<open>/<tag[^>]*>.*?<\/tag>/i\<close> at the start of \<open>s\<close>: the text \<open><tag\<close>, then everything up
  to the first \<open>>\<close> (\<open>[^>]*\<close> cannot go past it, and nothing else in the pattern can take
  its place), then the content up to the closing tag. The result is the input behind the
  match, or \<open>None\<close> where the pattern does not match at this position.
\<close>

definition match_element :: "string \<Rightarrow> string \<Rightarrow> string option" where
  "match_element tag s =
     (if ci_prefix (CHR ''<'' # tag) s
      then (case dropWhile (\<lambda>c. c \<noteq> CHR ''>'') (drop (Suc (length tag)) s) of
              [] \<Rightarrow> None
            | gt # content \<Rightarrow> find_close tag content)
      else None)"

text \<open>
  \<open>.replace(/<tag[^>]*>.*?<\/tag>/gi, '')\<close>: the input is scanned from the left; where
  the pattern matches, the match is dropped and the scan goes on behind it, otherwise the
  character is kept.
\<close>

function strip_elements :: "string \<Rightarrow> string \<Rightarrow> string" where
  "strip_elements tag [] = []"
| "strip_elements tag (c # cs) =
     (case match_element tag (c # cs) of
        Some rest \<Rightarrow> strip_elements tag rest
      | None \<Rightarrow> c # strip_elements tag cs)"
  by pat_completeness auto
termination
proof (relation "measure (\<lambda>(tag, s). length s)")
  show "wf (measure (\<lambda>(tag, s). length s))" by simp
next
  fix tag :: string and c :: char and cs rest :: string
  assume m: "match_element tag (c # cs) = Some rest"
  have close: "find_close tag b = Some r \<Longrightarrow> length r \<le> length b" for b r
    by (induction b) (auto split: if_splits)
  from m obtain gt content where d: "dropWhile (\<lambda>c. c \<noteq> CHR ''>'') (drop (Suc (length tag)) (c # cs)) = gt # content"
    and f: "find_close tag content = Some rest"
    by (auto simp add: match_element_def split: if_splits list.splits)
  have "length (gt # content) \<le> length cs"
    unfolding d [symmetric]
    by (rule order_trans [OF length_dropWhile_le]) simp
  with close [OF f] show "((tag, rest), (tag, c # cs)) \<in> measure (\<lambda>(tag, s). length s)"
    by simp
next
  fix tag :: string and c :: char and cs :: string
  show "((tag, cs), (tag, c # cs)) \<in> measure (\<lambda>(tag, s). length s)" by simp
qed

section \<open>EPUB adapter (epub-handler.js)\<close>

text \<open>
  What epub.js exposes of a parsed container, as far as the adapter reads it:
  \<open>book.loaded.navigation\<close> (its \<open>toc\<close>) and \<open>book.loaded.spine\<close> (its \<open>spineItems\<close>).
  \<open>None\<close> stands for a promise that rejects. An absent \<open>label\<close> or \<open>id\<close> is the empty
  string (both are falsy).
\<close>

record toc_entry =
  toc_label :: string
  toc_href :: string
  toc_id :: string

record spine_item =
  item_href :: string
  item_id :: string

record epub_book =
  navigation_toc :: "toc_entry list option"
  spineItems :: "spine_item list option"

text \<open>
  The fields of \<open>EpubHandler\<close>. \<open>imageBlobUrls\<close> is a JavaScript \<open>Set\<close>: a list without
  duplicates in insertion order. \<open>revoked\<close> is not a field of the class: it records, in
  order, the arguments of \<open>URL.revokeObjectURL\<close>; \<open>bookDestroyed\<close> counts the calls of
  the library's \<open>book.destroy()\<close>; \<open>epub_extractions\<close> lists the chapter indices for which
  \<open>getChapterText\<close> went past its cache check, each with the way its \<open>try\<close> block was left.
\<close>

datatype try_exit = Thrown | FellThrough

record epub_handler =
  epub_book :: "epub_book option"
  epub_chapters :: "chapter_info list"
  currentLocation :: "string option"
  epub_textContent :: "int \<rightharpoonup> string"
  imageBlobUrls :: "string list"
  revoked :: "string list"
  bookDestroyed :: nat
  epub_extractions :: "(int \<times> try_exit) list"

text \<open>The constructor.\<close>

definition new_EpubHandler :: epub_handler where
  "new_EpubHandler =
     \<lparr>epub_book = None, epub_chapters = [], currentLocation = None,
      epub_textContent = Map.empty, imageBlobUrls = [], revoked = [],
      bookDestroyed = 0, epub_extractions = []\<rparr>"

text \<open>
  \<open>estimateTotalPages\<close>: nothing in the \<open>try\<close> block can throw, so its \<open>catch\<close> branch
  is unreachable and has no counterpart here.
\<close>

definition estimateTotalPages :: "epub_handler \<Rightarrow> rat" where
  "estimateTotalPages h =
     (if epub_book h = None \<or> length (epub_chapters h) = 0 then 1
      else
        let n = of_nat (length (epub_chapters h)) :: rat;
            baseEstimate = n * 2
        in if n > 100 then max baseEstimate (n * 1.5)
           else if n > 50 then max baseEstimate (n * 2)
           else max baseEstimate (n * 3))"

text \<open>A loaded adapter with \<open>n\<close> chapters taken from a spine, for concrete evaluation.\<close>

definition sample_chapter :: chapter_info where
  "sample_chapter =
     \<lparr>title = ''Section 1'', href = Some ''s.xhtml'', chapter_id = Some ''s'',
      pageCount = None, loaded = Some False, pageStart = None, pageEnd = None\<rparr>"

definition loaded_epub :: "nat \<Rightarrow> epub_handler" where
  "loaded_epub n =
     new_EpubHandler
       \<lparr>epub_book := Some \<lparr>navigation_toc = Some [], spineItems = Some []\<rparr>,
        epub_chapters := replicate n sample_chapter\<rparr>"

subsection \<open>Loading\<close>

text \<open>
  The three ways the \<open>try\<close> block of \<open>loadBook\<close> can go: \<open>loadEpubJs\<close> throws (the
  \<open>book\<close> field stays \<open>null\<close>); \<open>book.ready\<close> or \<open>book.loaded.metadata\<close> rejects
  (the \<open>book\<close> field is already assigned); or the container opens.
\<close>

datatype epub_load = EpubLibraryFails | EpubBookFails epub_book | EpubOpened epub_book

definition lazy_chapter :: "string \<Rightarrow> string \<Rightarrow> string \<Rightarrow> chapter_info" where
  "lazy_chapter t h i =
     \<lparr>title = t, href = Some h, chapter_id = Some i, pageCount = None, loaded = Some False,
      pageStart = None, pageEnd = None\<rparr>"

definition toc_chapter :: "nat \<times> toc_entry \<Rightarrow> chapter_info" where
  "toc_chapter p =
     (case p of (index, entry) \<Rightarrow>
        lazy_chapter
          (if toc_label entry \<noteq> [] then toc_label entry
           else ''Chapter '' @ string_of_int (int index + 1))
          (toc_href entry)
          (if toc_id entry \<noteq> [] then toc_id entry else ''chapter-'' @ string_of_int (int index)))"

definition spine_chapter :: "nat \<times> spine_item \<Rightarrow> chapter_info" where
  "spine_chapter p =
     (case p of (index, item) \<Rightarrow>
        lazy_chapter
          (if str_includes (item_href item) ''chapter'' \<or> str_includes (item_href item) ''ch''
           then ''Chapter '' @ string_of_int (int index + 1)
           else ''Section '' @ string_of_int (int index + 1))
          (item_href item)
          (if item_id item \<noteq> [] then item_id item else ''section-'' @ string_of_int (int index)))"

definition fallback_chapters :: "chapter_info list" where
  "fallback_chapters = [lazy_chapter ''Chapter 1'' [] ''chapter-0'']"

definition extractChaptersLazy :: "epub_handler \<Rightarrow> epub_handler" where
  "extractChaptersLazy h =
     (case epub_book h of
        None \<Rightarrow> h
      | Some b \<Rightarrow>
          h\<lparr>epub_chapters :=
             (case navigation_toc b of
                None \<Rightarrow> fallback_chapters
              | Some toc \<Rightarrow>
                  if 0 < length toc then map toc_chapter (enumerate 0 toc)
                  else (case spineItems b of
                          None \<Rightarrow> fallback_chapters
                        | Some items \<Rightarrow>
                            let maxChapters = min (length items) 200
                            in map spine_chapter (enumerate 0 (take maxChapters items))))\<rparr>)"

definition epub_mock_chapter :: "string \<Rightarrow> string \<Rightarrow> int \<Rightarrow> chapter_info" where
  "epub_mock_chapter t h n =
     \<lparr>title = t, href = Some h, chapter_id = None, pageCount = Some n, loaded = None,
      pageStart = None, pageEnd = None\<rparr>"

definition mockLoadBook :: "epub_handler \<Rightarrow> book_data \<times> epub_handler" where
  "mockLoadBook h =
     (let h1 = h\<lparr>epub_chapters :=
                  [epub_mock_chapter ''Chapter 1: Introduction'' ''chapter1.xhtml'' 15,
                   epub_mock_chapter ''Chapter 2: Getting Started'' ''chapter2.xhtml'' 20,
                   epub_mock_chapter ''Chapter 3: Advanced Topics'' ''chapter3.xhtml'' 25,
                   epub_mock_chapter ''Chapter 4: Examples'' ''chapter4.xhtml'' 18,
                   epub_mock_chapter ''Chapter 5: Conclusion'' ''chapter5.xhtml'' 12]\<rparr>
      in (\<lparr>bd_chapters = epub_chapters h1,
           bd_totalPages =
             of_int (fold (\<lambda>c total. total + (case pageCount c of Some n \<Rightarrow> n | None \<Rightarrow> 0))
                       (epub_chapters h1) 0),
           bd_isLargeFile = None\<rparr>, h1))"

definition EpubHandler_loadBook :: "epub_load \<Rightarrow> epub_handler \<Rightarrow> book_data \<times> epub_handler" where
  "EpubHandler_loadBook env h =
     (case env of
        EpubLibraryFails \<Rightarrow> mockLoadBook h
      | EpubBookFails b \<Rightarrow> mockLoadBook (h\<lparr>epub_book := Some b\<rparr>)
      | EpubOpened b \<Rightarrow>
          let h1 = extractChaptersLazy (h\<lparr>epub_book := Some b\<rparr>);
              estimatedPages = estimateTotalPages h1
          in (\<lparr>bd_chapters = epub_chapters h1, bd_totalPages = estimatedPages,
               bd_isLargeFile = Some (50 < length (epub_chapters h1) \<or> 500 < estimatedPages)\<rparr>,
              h1))"

subsection \<open>Cleaning chapter markup\<close>

definition cleanHtmlContentBasic :: "string \<Rightarrow> string" where
  "cleanHtmlContentBasic htmlContent =
     trim (strip_elements ''head'' (strip_elements ''style'' (strip_elements ''script'' htmlContent)))"

text \<open>
  \<open>processHtmlContent\<close>: the markup is parsed inside a \<open>div\<close>, every image of it is
  passed to \<open>processImage\<close>, and the \<open>innerHTML\<close> of the \<open>div\<close> is read back; this is the
  browser's part, and the parameter \<open>parse\<close> gives its result (\<open>None\<close> where it throws,
  which selects the \<open>catch\<close> branch). The code's own part is the two replacements and the
  \<open>trim\<close>.
\<close>

definition processHtmlContent :: "(string \<Rightarrow> string option) \<Rightarrow> string \<Rightarrow> string" where
  "processHtmlContent parse htmlContent =
     (case parse htmlContent of
        Some innerHTML \<Rightarrow> trim (strip_elements ''head'' (strip_elements ''script'' innerHTML))
      | None \<Rightarrow> cleanHtmlContentBasic htmlContent)"

text \<open>An element written on the pattern: \<open><tag attrs>content</tag>\<close>.\<close>

definition element :: "string \<Rightarrow> string \<Rightarrow> string \<Rightarrow> string" where
  "element tag attrs content = CHR ''<'' # tag @ attrs @ CHR ''>'' # content @ ''</'' @ tag @ ''>''"

text \<open>The pattern for \<open>tag\<close> has a place to start somewhere in \<open>s\<close>.\<close>

fun has_open :: "string \<Rightarrow> string \<Rightarrow> bool" where
  "has_open tag [] = False"
| "has_open tag (c # cs) = (ci_prefix (CHR ''<'' # tag) (c # cs) \<or> has_open tag cs)"

subsection \<open>Rendering a chapter\<close>

text \<open>
  \<open>processImagesFromManifest\<close> replaces the \<open>src\<close> of those \<open>img\<close> tags whose file the
  manifest knows and the container can load; what it makes of markup with images is the
  parameter \<open>rewrite\<close>. Its pattern begins with \<open><img\<close>, so markup in which that does not
  occur is returned as it is, also where there is no book or the manifest fails. It
  removes nothing.
\<close>

definition processImagesFromManifest :: "(string \<Rightarrow> string) \<Rightarrow> string \<Rightarrow> string" where
  "processImagesFromManifest rewrite htmlContent =
     (if has_open ''img'' htmlContent then rewrite htmlContent else htmlContent)"

text \<open>
  \<open>processHtmlContentWithDirectLoad\<close>: where the cleaned result shows no resolved image,
  the raw markup is handed to \<open>processImagesFromManifest\<close> and its result is returned in
  place of the cleaned one. Neither callee throws, so the \<open>catch\<close> branch is unreachable.
\<close>

definition processHtmlContentWithDirectLoad ::
  "(string \<Rightarrow> string option) \<Rightarrow> (string \<Rightarrow> string) \<Rightarrow> string \<Rightarrow> string" where
  "processHtmlContentWithDirectLoad parse rewrite htmlContent =
     (let normalResult = processHtmlContent parse htmlContent
      in if \<not> str_includes normalResult ''blob:'' \<and> \<not> str_includes normalResult ''data:image''
         then processImagesFromManifest rewrite htmlContent
         else normalResult)"

definition mockRenderChapter :: "chapter_info \<Rightarrow> int \<Rightarrow> string" where
  "mockRenderChapter ch chapterIndex =
      ''\<newline>            <h1>'' @
      title ch @
      ''</h1>\<newline>            <p>This is a mock rendering of '' @
      title ch @
      ''. In a real implementation, this would contain the actual EPUB '' @
      ''chapter content.</p>\<newline>            \<newline>            <p>Lorem ipsum '' @
      ''dolor sit amet, consectetur adipiscing elit. Sed do eiusmod '' @
      ''tempor incididunt ut labore et dolore magna aliqua. Ut enim ad '' @
      ''minim veniam, quis nostrud exercitation ullamco laboris nisi ut '' @
      ''aliquip ex ea commodo consequat.</p>\<newline>            \<newline>            '' @
      ''<p>Duis aute irure dolor in reprehenderit in voluptate velit esse '' @
      ''cillum dolore eu fugiat nulla pariatur. Excepteur sint occaecat '' @
      ''cupidatat non proident, sunt in culpa qui officia deserunt mollit '' @
      ''anim id est laborum.</p>\<newline>            \<newline>            <h2>Section '' @
      string_of_int (chapterIndex + 1) @
      ''.1</h2>\<newline>            <p>Sed ut perspiciatis unde omnis iste natus '' @
      ''error sit voluptatem accusantium doloremque laudantium, totam rem '' @
      ''aperiam, eaque ipsa quae ab illo inventore veritatis et quasi '' @
      ''architecto beatae vitae dicta sunt explicabo.</p>\<newline>            \<newline>   '' @
      ''         <p>Nemo enim ipsam voluptatem quia voluptas sit '' @
      ''aspernatur aut odit aut fugit, sed quia consequuntur magni '' @
      ''dolores eos qui ratione voluptatem sequi nesciunt.</p>\<newline>           '' @
      '' \<newline>            <h2>Section '' @
      string_of_int (chapterIndex + 1) @
      ''.2</h2>\<newline>            <p>Neque porro quisquam est, qui dolorem '' @
      ''ipsum quia dolor sit amet, consectetur, adipisci velit, sed quia '' @
      ''non numquam eius modi tempora incidunt ut labore et dolore magnam '' @
      ''aliquam quaerat voluptatem.</p>\<newline>            \<newline>            <p>Ut '' @
      ''enim ad minima veniam, quis nostrum exercitationem ullam corporis '' @
      ''suscipit laboriosam, nisi ut aliquid ex ea commodi '' @
      ''consequatur?</p>\<newline>        ''"

text \<open>
  What the library and the browser do during one call of \<open>renderChapter\<close>.
  \<open>section_outcome\<close>: \<open>book.section(href)\<close> and \<open>section.load\<close> deliver the \<open>innerHTML\<close> of the
  section's body (\<open>Body\<close>), there is no section or no document (\<open>Nothing\<close>), or one of them
  throws. \<open>spine_outcome\<close>: the same for the spine item, \<open>book.load(spineItem.url)\<close> and the
  parsed body. \<open>dom_innerHTML\<close> is the browser's part of \<open>processHtmlContent\<close>,
  \<open>manifest_rewrite\<close> the library's part of \<open>processImagesFromManifest\<close>, and
  \<open>created_blob_urls\<close> lists, in order, the blob URLs that \<open>loadImageFromEpub\<close> and
  \<open>processImagesFromManifest\<close> create and add to \<open>imageBlobUrls\<close> on the way.
\<close>

datatype body_outcome = Throws | Nothing | Body string

record epub_render =
  section_outcome :: body_outcome
  spine_outcome :: body_outcome
  dom_innerHTML :: "string \<Rightarrow> string option"
  manifest_rewrite :: "string \<Rightarrow> string"
  created_blob_urls :: "string list"

text \<open>\<open>Set.prototype.add\<close> for each new URL in turn: insertion order is kept.\<close>

definition track_all :: "string list \<Rightarrow> string list \<Rightarrow> string list" where
  "track_all tracked new = fold (\<lambda>url s. if url \<in> set s then s else s @ [url]) new tracked"

text \<open>
  The markup that \<open>renderChapter\<close> returns for a chapter in range. The first \<open>return\<close>
  needs a non-empty body of the section; without it the spine is tried; an exception
  anywhere, or no content at all, ends in the mock chapter.
\<close>

definition chapter_markup :: "epub_render \<Rightarrow> epub_handler \<Rightarrow> int \<Rightarrow> string" where
  "chapter_markup env h chapterIndex =
     (let ch = epub_chapters h ! nat chapterIndex;
          mock = processHtmlContent (dom_innerHTML env) (mockRenderChapter ch chapterIndex);
          from_spine =
            (case spine_outcome env of
               Body htmlContent \<Rightarrow>
                 processHtmlContentWithDirectLoad (dom_innerHTML env) (manifest_rewrite env)
                   htmlContent
             | Nothing \<Rightarrow> mock
             | Throws \<Rightarrow> mock)
      in if epub_book h \<noteq> None \<and> truthy_str (href ch)
         then (case section_outcome env of
                 Body htmlContent \<Rightarrow>
                   if htmlContent \<noteq> [] then processHtmlContent (dom_innerHTML env) htmlContent
                   else from_spine
               | Nothing \<Rightarrow> from_spine
               | Throws \<Rightarrow> mock)
         else mock)"

definition renderChapter ::
  "epub_render \<Rightarrow> epub_handler \<Rightarrow> int \<Rightarrow> (error + string) \<times> epub_handler" where
  "renderChapter env h chapterIndex =
     (if chapterIndex < 0 \<or> chapterIndex \<ge> int (length (epub_chapters h))
      then (Inl InvalidChapterIndex, h)
      else (Inr (chapter_markup env h chapterIndex),
            h\<lparr>imageBlobUrls := track_all (imageBlobUrls h) (created_blob_urls env)\<rparr>))"

subsection \<open>Text of a chapter\<close>

definition mockText :: "chapter_info \<Rightarrow> string" where
  "mockText ch =
      title ch @
      ''\<newline>\<newline>This is the text content of '' @
      title ch @
      '' extracted from the EPUB file. In a real implementation, this would '' @
      ''contain the actual chapter text for summary generation.\<newline>\<newline>The chapter '' @
      ''contains detailed information about the topic, with multiple sections '' @
      ''and subsections. It includes examples, explanations, and practical '' @
      ''guidance for readers.\<newline>\<newline>This represents the actual textual content '' @
      ''that would be used to generate meaningful summaries using AI.''"

text \<open>
  How the \<open>try\<close> block of \<open>getChapterText\<close> is left. It has no reachable \<open>return\<close>:
  once a spine item is found, the inner \<open>try\<close> declares \<open>let textContent\<close> in its own
  block, its \<open>catch\<close> assigns to that name and the statement after it reads it, both
  outside the block, and in the strict code of a class body either is a
  \<open>ReferenceError\<close>; a rejected \<open>book.loaded.spine\<close> throws as well. \<open>spine.get(href)\<close>
  is the library's lookup of the spine item by its \<open>href\<close>.
\<close>

definition chapter_text_try :: "epub_handler \<Rightarrow> int \<Rightarrow> try_exit" where
  "chapter_text_try h chapterIndex =
     (case epub_book h of
        None \<Rightarrow> FellThrough
      | Some b \<Rightarrow>
          if \<not> truthy_str (href (epub_chapters h ! nat chapterIndex)) then FellThrough
          else (case spineItems b of
                  None \<Rightarrow> Thrown
                | Some items \<Rightarrow>
                    if list_ex (\<lambda>item. Some (item_href item) =
                                          href (epub_chapters h ! nat chapterIndex)) items
                       \<or> nat chapterIndex < length items
                    then Thrown
                    else FellThrough))"

definition getChapterText :: "epub_handler \<Rightarrow> int \<Rightarrow> (error + string) \<times> epub_handler" where
  "getChapterText h chapterIndex =
     (if chapterIndex < 0 \<or> chapterIndex \<ge> int (length (epub_chapters h))
      then (Inl InvalidChapterIndex, h)
      else (case epub_textContent h chapterIndex of
              Some cached \<Rightarrow> (Inr cached, h)
            | None \<Rightarrow>
                let ch = epub_chapters h ! nat chapterIndex;
                    h1 = h\<lparr>epub_extractions :=
                             epub_extractions h @ [(chapterIndex, chapter_text_try h chapterIndex)]\<rparr>;
                    mock = mockText ch
                in (Inr mock,
                    h1\<lparr>epub_textContent := (epub_textContent h1)(chapterIndex \<mapsto> mock)\<rparr>)))"

subsection \<open>Teardown\<close>

definition EpubHandler_destroy :: "epub_handler \<Rightarrow> epub_handler" where
  "EpubHandler_destroy h =
     h\<lparr>revoked := revoked h @ imageBlobUrls h,
       imageBlobUrls := [],
       bookDestroyed := (if epub_book h \<noteq> None then bookDestroyed h + 1 else bookDestroyed h),
       epub_book := None, epub_chapters := [], currentLocation := None,
       epub_textContent := Map.empty\<rparr>"

section \<open>PDF adapter (pdf-handler.js)\<close>

text \<open>
  What PDF.js exposes of an opened document, as far as the adapter reads it. \<open>getPage\<close>
  gives \<open>None\<close> where the promise rejects; of a page the adapter uses the viewport at
  scale 1.5, whether \<open>page.render(...).promise\<close> resolves, the \<open>outerHTML\<close> of the canvas
  it was drawn on, and the \<open>str\<close> fields of \<open>getTextContent().items\<close> (\<open>None\<close> where that
  promise rejects; an item without \<open>str\<close> is the empty string).
\<close>

record pdf_page =
  viewport_width :: rat
  viewport_height :: rat
  render_resolves :: bool
  canvas_outerHTML :: string
  text_items :: "string list option"

record pdf_document =
  numPages :: int
  getPage :: "int \<Rightarrow> pdf_page option"

text \<open>
  The three ways the \<open>try\<close> block of \<open>loadBook\<close> can go: \<open>loadPdfJs\<close> throws,
  \<open>getDocument(...).promise\<close> rejects, or the document opens.
\<close>

datatype pdf_load = LibraryFails | DocumentFails | Opened pdf_document

record page_info =
  page_number :: int
  page_width :: rat
  page_height :: rat

text \<open>
  The fields of \<open>PdfHandler\<close>; \<open>pdfjsLib\<close> is \<open>True\<close> once the library object is stored.
  Two fields are not in the class: \<open>docDestroyed\<close> counts the calls of the library's
  \<open>pdfDocument.destroy()\<close>, and \<open>pdf_extractions\<close> lists the page numbers for which
  \<open>getPageText\<close> went past its cache check.
\<close>

record pdf_handler =
  pdfDocument :: "pdf_document option"
  pdf_totalPages :: int
  pdf_pages :: "page_info list"
  pdf_textContent :: "int \<rightharpoonup> string"
  pdfjsLib :: bool
  docDestroyed :: nat
  pdf_extractions :: "int list"

definition new_PdfHandler :: pdf_handler where
  "new_PdfHandler =
     \<lparr>pdfDocument = None, pdf_totalPages = 0, pdf_pages = [], pdf_textContent = Map.empty,
      pdfjsLib = False, docDestroyed = 0, pdf_extractions = []\<rparr>"

subsection \<open>Synthetic chapters\<close>

definition chaptersPerSection :: "int \<Rightarrow> int" where
  "chaptersPerSection tot = max 1 (tot div 7)"

text \<open>The body of the \<open>for\<close> loop of \<open>createChaptersFromPages\<close> at loop variable \<open>i\<close>.\<close>

definition page_chapter :: "int \<Rightarrow> int \<Rightarrow> chapter_info" where
  "page_chapter tot i =
     (let startPage = i + 1;
          endPage = min (i + chaptersPerSection tot) tot;
          chapterNum = i div chaptersPerSection tot + 1
      in \<lparr>title = (if startPage = 1 then ''Introduction''
                   else if endPage = tot then ''Conclusion''
                   else ''Chapter '' @ string_of_int chapterNum),
          href = None, chapter_id = None, pageCount = None, loaded = None,
          pageStart = Some startPage, pageEnd = Some endPage\<rparr>)"

function chapters_from :: "int \<Rightarrow> int \<Rightarrow> chapter_info list" where
  "chapters_from tot i =
     (if i < tot then page_chapter tot i # chapters_from tot (i + chaptersPerSection tot)
      else [])"
  by pat_completeness auto
termination
  by (relation "measure (\<lambda>(tot, i). nat (tot - i))") (auto simp: chaptersPerSection_def)

declare chapters_from.simps [simp del]

definition createChaptersFromPages :: "pdf_handler \<Rightarrow> chapter_info list" where
  "createChaptersFromPages h = chapters_from (pdf_totalPages h) 0"

subsection \<open>Loading\<close>

definition default_pages :: "int \<Rightarrow> page_info list" where
  "default_pages n = map (\<lambda>i. \<lparr>page_number = i, page_width = 612, page_height = 792\<rparr>) [1..n]"

definition pdf_chapter :: "string \<Rightarrow> int \<Rightarrow> int \<Rightarrow> chapter_info" where
  "pdf_chapter t a b =
     \<lparr>title = t, href = None, chapter_id = None, pageCount = None, loaded = None,
      pageStart = Some a, pageEnd = Some b\<rparr>"

definition mockLoadPdf :: "pdf_handler \<Rightarrow> book_data \<times> pdf_handler" where
  "mockLoadPdf h =
     (\<lparr>bd_chapters =
         [pdf_chapter ''Table of Contents'' 1 2,
          pdf_chapter ''Introduction'' 3 8,
          pdf_chapter ''Chapter 1: Fundamentals'' 9 18,
          pdf_chapter ''Chapter 2: Advanced Concepts'' 19 28,
          pdf_chapter ''Chapter 3: Practical Applications'' 29 38,
          pdf_chapter ''Chapter 4: Case Studies'' 39 43,
          pdf_chapter ''Conclusion'' 44 45],
       bd_totalPages = 45, bd_isLargeFile = None\<rparr>,
      h\<lparr>pdf_totalPages := 45, pdf_pages := default_pages 45\<rparr>)"

definition PdfHandler_loadBook :: "pdf_load \<Rightarrow> pdf_handler \<Rightarrow> book_data \<times> pdf_handler" where
  "PdfHandler_loadBook env h =
     (case env of
        LibraryFails \<Rightarrow> mockLoadPdf h
      | DocumentFails \<Rightarrow> mockLoadPdf (h\<lparr>pdfjsLib := True\<rparr>)
      | Opened doc \<Rightarrow>
          let h1 = h\<lparr>pdfjsLib := True, pdfDocument := Some doc,
                     pdf_totalPages := numPages doc, pdf_pages := default_pages (numPages doc)\<rparr>
          in (\<lparr>bd_chapters = createChaptersFromPages h1,
               bd_totalPages = of_int (pdf_totalPages h1), bd_isLargeFile = None\<rparr>, h1))"

subsection \<open>Rendering a page\<close>

text \<open>
  The markup \<open>renderPage\<close> returns is one of two template literals: the container around
  \<open>canvas.outerHTML\<close>, or the mock page of \<open>mockRenderPage\<close>, which depends on the page
  number and on \<open>totalPages\<close> only.
\<close>

datatype pdf_markup = CanvasPage string | MockPage int int

definition mockRenderPage :: "pdf_handler \<Rightarrow> int \<Rightarrow> pdf_markup" where
  "mockRenderPage h pageNumber = MockPage pageNumber (pdf_totalPages h)"

text \<open>
  The \<open>try\<close> block of \<open>renderPage\<close>: \<open>None\<close> where it is left without a \<open>return\<close>
  (no document, or an exception that the \<open>catch\<close> logs). The page dimensions are written
  after the last statement that can throw.
\<close>

definition render_real :: "pdf_handler \<Rightarrow> int \<Rightarrow> (pdf_markup \<times> pdf_handler) option" where
  "render_real h pageNumber =
     (case pdfDocument h of
        None \<Rightarrow> None
      | Some doc \<Rightarrow>
          if \<not> pdfjsLib h then None
          else (case getPage doc pageNumber of
                  None \<Rightarrow> None
                | Some page \<Rightarrow>
                    if \<not> render_resolves page then None
                    else
                      let k = nat (pageNumber - 1);
                          h' = (if k < length (pdf_pages h)
                                then h\<lparr>pdf_pages := (pdf_pages h)
                                       [k := (pdf_pages h ! k)\<lparr>page_width := viewport_width page,
                                                               page_height := viewport_height page\<rparr>]\<rparr>
                                else h)
                      in Some (CanvasPage (canvas_outerHTML page), h')))"

definition renderPage :: "pdf_handler \<Rightarrow> int \<Rightarrow> (error + pdf_markup) \<times> pdf_handler" where
  "renderPage h pageNumber =
     (if pageNumber < 1 \<or> pageNumber > pdf_totalPages h then (Inl InvalidPageNumber, h)
      else (case render_real h pageNumber of
              Some (m, h') \<Rightarrow> (Inr m, h')
            | None \<Rightarrow> (Inr (mockRenderPage h pageNumber), h)))"

subsection \<open>Text of a page\<close>

text \<open>
  \<open>mockExtractPageText\<close> is only reached with a page number of at least 1, where
  \<open>Math.ceil(pageNumber / 5)\<close> and \<open>pageNumber % 5\<close> are the integer operations below.
\<close>

definition mockExtractPageText :: "int \<Rightarrow> string" where
  "mockExtractPageText pageNumber =
      ''Page '' @
      string_of_int pageNumber @
      '' Content\<newline>\<newline>This is the extracted text content from page '' @
      string_of_int pageNumber @
      '' of the PDF document. In a real implementation, this would contain '' @
      ''the actual text extracted from the PDF using PDF.js text extraction '' @
      ''capabilities.\<newline>\<newline>This mock text represents what would typically be '' @
      ''found on a PDF page, including headings, paragraphs, and structured '' @
      ''content that could be used for generating summaries or performing '' @
      ''searches.\<newline>\<newline>The content includes detailed information about the topic '' @
      ''covered on this page, with explanations, examples, and references '' @
      ''that would be valuable for AI-powered summary generation.\<newline>\<newline>Section '' @
      string_of_int (- ((- pageNumber) div 5)) @
      ''.'' @
      string_of_int (if pageNumber mod 5 = 0 then 5 else pageNumber mod 5) @
      '': Advanced Topics\<newline>\<newline>This section covers advanced concepts and '' @
      ''practical applications related to the main topic. It provides '' @
      ''in-depth analysis and real-world examples that help readers '' @
      ''understand complex concepts.\<newline>\<newline>The information presented here builds '' @
      ''upon previous chapters and provides foundational knowledge for '' @
      ''subsequent sections of the document.''"

definition clean_page_text :: "string list \<Rightarrow> string" where
  "clean_page_text items =
     (let textItems = filter (\<lambda>s. s \<noteq> [] \<and> trim s \<noteq> []) items;
          rawText = join_space textItems
      in trim (squeeze_repeats (normalize_whitespace rawText)))"

text \<open>
  The \<open>try\<close> block of \<open>getPageText\<close>: the cleaned text, or \<open>None\<close> where the block is
  left without a \<open>return\<close>. It writes the cache only together with its \<open>return\<close>.
\<close>

definition page_text_real :: "pdf_handler \<Rightarrow> int \<Rightarrow> string option" where
  "page_text_real h pageNumber =
     (case pdfDocument h of
        None \<Rightarrow> None
      | Some doc \<Rightarrow>
          if \<not> pdfjsLib h then None
          else (case getPage doc pageNumber of
                  None \<Rightarrow> None
                | Some page \<Rightarrow>
                    (case text_items page of
                       None \<Rightarrow> None
                     | Some items \<Rightarrow> Some (clean_page_text items))))"

definition getPageText :: "pdf_handler \<Rightarrow> int \<Rightarrow> (error + string) \<times> pdf_handler" where
  "getPageText h pageNumber =
     (if pageNumber < 1 \<or> pageNumber > pdf_totalPages h then (Inl InvalidPageNumber, h)
      else (case pdf_textContent h pageNumber of
              Some cached \<Rightarrow> (Inr cached, h)
            | None \<Rightarrow>
                let h1 = h\<lparr>pdf_extractions := pdf_extractions h @ [pageNumber]\<rparr>;
                    text = (case page_text_real h1 pageNumber of
                              Some cleanedText \<Rightarrow> cleanedText
                            | None \<Rightarrow> mockExtractPageText pageNumber)
                in (Inr text, h1\<lparr>pdf_textContent := (pdf_textContent h1)(pageNumber \<mapsto> text)\<rparr>)))"

subsection \<open>Teardown\<close>

definition PdfHandler_destroy :: "pdf_handler \<Rightarrow> pdf_handler" where
  "PdfHandler_destroy h =
     h\<lparr>docDestroyed := (if pdfDocument h \<noteq> None then docDestroyed h + 1 else docDestroyed h),
       pdfDocument := None, pdf_totalPages := 0, pdf_pages := [],
       pdf_textContent := Map.empty\<rparr>"

subsection \<open>A sample document, for concrete evaluation\<close>

definition sample_page :: pdf_page where
  "sample_page =
     \<lparr>viewport_width = 918, viewport_height = 1188, render_resolves = True,
      canvas_outerHTML = ''<canvas></canvas>'',
      text_items = Some [''Hello'', ''  '', ''world'']\<rparr>"

definition sample_document :: "int \<Rightarrow> pdf_document" where
  "sample_document n =
     \<lparr>numPages = n, getPage = (\<lambda>k. if 1 \<le> k \<and> k \<le> n then Some sample_page else None)\<rparr>"

definition loaded_pdf :: "int \<Rightarrow> pdf_handler" where
  "loaded_pdf n = snd (PdfHandler_loadBook (Opened (sample_document n)) new_PdfHandler)"

section \<open>The application (renderer.js)\<close>

text \<open>
  The file that the dialog returns, and how the libraries respond while it is opened and
  shown. The scripts that define \<open>EpubHandler\<close> and \<open>PdfHandler\<close> are loaded with the
  page, so the branches "handler not available" of \<open>loadEpub\<close> and \<open>loadPdf\<close> are left
  out.
\<close>

record file_data =
  file_name :: string
  extension :: string

record libraries =
  epub_open :: epub_load
  pdf_open :: pdf_load
  epub_rendering :: epub_render

text \<open>
  The items of the chapter list in the sidebar: a jump affordance with its text and the
  two arguments its \<open>onclick\<close> passes to \<open>showChapterRange\<close>; a chapter item with its
  \<open>dataset.index\<close>, whether it carries the class \<open>active\<close>, and its text; the counter.
\<close>

datatype list_item =
    ChapterJump string int int
  | ChapterItem int bool string
  | ChapterCounter string

datatype document_content = WelcomeScreen | EpubContent string | PdfContent pdf_markup

datatype adapter = EPUB | PDF

datatype lifecycle_event = Created adapter | Destroyed adapter

text \<open>
  The fields of \<open>EpubizonApp\<close>, the two parts of the page that the claims are about
  (\<open>chaptersList\<close>, \<open>documentContainer\<close>), the errors passed to \<open>showError\<close>, and, not in
  the class, \<open>lifecycle\<close>: the constructions and \<open>destroy()\<close> calls of adapters, in order.
\<close>

record app =
  currentBook :: "file_data option"
  currentChapter :: int
  currentPage :: int
  totalPages :: rat
  chapters :: "chapter_info list"
  isLargeFile :: "bool option"
  epubHandler :: "epub_handler option"
  pdfHandler :: "pdf_handler option"
  chaptersList :: "list_item list"
  documentContainer :: document_content
  errorsShown :: "error list"
  lifecycle :: "lifecycle_event list"

definition new_EpubizonApp :: app where
  "new_EpubizonApp =
     \<lparr>currentBook = None, currentChapter = 0, currentPage = 0, totalPages = 0, chapters = [],
      isLargeFile = None, epubHandler = None, pdfHandler = None, chaptersList = [],
      documentContainer = WelcomeScreen, errorsShown = [], lifecycle = []\<rparr>"

subsection \<open>Rendering the current unit\<close>

definition renderCurrentChapter :: "epub_render \<Rightarrow> app \<Rightarrow> error option \<times> app" where
  "renderCurrentChapter env a =
     (case epubHandler a of
        None \<Rightarrow> (None, a)
      | Some eh \<Rightarrow>
          if 0 \<le> currentChapter a \<and> currentChapter a < int (length (chapters a))
          then (case renderChapter env eh (currentChapter a) of
                  (Inl e, eh') \<Rightarrow> (Some e, a\<lparr>epubHandler := Some eh'\<rparr>)
                | (Inr content, eh') \<Rightarrow>
                    (None, a\<lparr>epubHandler := Some eh', documentContainer := EpubContent content\<rparr>))
          else (None, a))"

definition renderCurrentPage :: "app \<Rightarrow> error option \<times> app" where
  "renderCurrentPage a =
     (case pdfHandler a of
        None \<Rightarrow> (None, a)
      | Some ph \<Rightarrow>
          (case renderPage ph (currentPage a) of
             (Inl e, ph') \<Rightarrow> (Some e, a\<lparr>pdfHandler := Some ph'\<rparr>)
           | (Inr content, ph') \<Rightarrow>
               (None, a\<lparr>pdfHandler := Some ph', documentContainer := PdfContent content\<rparr>)))"

definition renderCurrentContent :: "epub_render \<Rightarrow> app \<Rightarrow> error option \<times> app" where
  "renderCurrentContent env a =
     (case currentBook a of
        None \<Rightarrow> (Some TypeError, a)
      | Some fileData \<Rightarrow>
          if extension fileData = ''.epub'' then renderCurrentChapter env a
          else if extension fileData = ''.pdf'' then renderCurrentPage a
          else (None, a))"

subsection \<open>The chapter list\<close>

definition chapter_item :: "app \<Rightarrow> int \<Rightarrow> list_item" where
  "chapter_item a index =
     ChapterItem index (index = currentChapter a)
       (if title (chapters a ! nat index) \<noteq> [] then title (chapters a ! nat index)
        else ''Chapter '' @ string_of_int (index + 1))"

definition chapters_before :: "int \<Rightarrow> string" where
  "chapters_before n = ''... ('' @ string_of_int n @ '' chapters before)''"

definition chapters_after :: "int \<Rightarrow> string" where
  "chapters_after n = ''... ('' @ string_of_int n @ '' chapters after)''"

definition updateChaptersList :: "app \<Rightarrow> app" where
  "updateChaptersList a =
     (let len = int (length (chapters a))
      in if truthy_bool (isLargeFile a) \<and> len > 100
         then
           let maxVisible = 50;
               start = max 0 (currentChapter a - 25);
               end = min len (start + maxVisible)
           in a\<lparr>chaptersList :=
                  (if start > 0 then [ChapterJump (chapters_before start) 0 50] else []) @
                  map (chapter_item a) [start..end - 1] @
                  (if end < len
                   then [ChapterJump (chapters_after (len - end)) end (min len (end + 50))]
                   else []) @
                  [ChapterCounter (''Showing '' @ string_of_int (end - start) @ '' of '' @
                                   string_of_int len @ '' chapters'')]\<rparr>
         else a\<lparr>chaptersList := map (chapter_item a) [0..len - 1]\<rparr>)"

text \<open>
  \<open>showChapterRange\<close> is only called from the \<open>onclick\<close> handlers above and below, all of
  which pass a \<open>start\<close> of at least 0.
\<close>

definition showChapterRange :: "int \<Rightarrow> int \<Rightarrow> app \<Rightarrow> app" where
  "showChapterRange start end a =
     (let len = int (length (chapters a))
      in a\<lparr>chaptersList :=
             (if start > 0 then [ChapterJump (chapters_before start) (max 0 (start - 50)) start]
              else []) @
             map (chapter_item a) [start..min end len - 1] @
             (if end < len
              then [ChapterJump (chapters_after (len - end)) end (min len (end + 50))]
              else [])\<rparr>)"

text \<open>A click on a jump affordance runs its \<open>onclick\<close>.\<close>

fun click :: "list_item \<Rightarrow> app \<Rightarrow> app" where
  "click (ChapterJump text start end) a = showChapterRange start end a"
| "click item a = a"

text \<open>The \<open>dataset.index\<close> values of the chapter items on display, in order.\<close>

fun displayed :: "list_item list \<Rightarrow> int list" where
  "displayed [] = []"
| "displayed (ChapterItem index active text # items) = index # displayed items"
| "displayed (item # items) = displayed items"

subsection \<open>Opening a file\<close>

definition loadEpub :: "libraries \<Rightarrow> app \<Rightarrow> error option \<times> app" where
  "loadEpub env a =
     (let a1 = (case epubHandler a of
                  Some previous \<Rightarrow>
                    a\<lparr>epubHandler := Some (EpubHandler_destroy previous),
                      lifecycle := lifecycle a @ [Destroyed EPUB]\<rparr>
                | None \<Rightarrow> a);
          a2 = a1\<lparr>epubHandler := Some new_EpubHandler, lifecycle := lifecycle a1 @ [Created EPUB]\<rparr>;
          loaded = EpubHandler_loadBook (epub_open env) new_EpubHandler;
          bookData = fst loaded;
          a3 = a2\<lparr>epubHandler := Some (snd loaded),
                  chapters := bd_chapters bookData,
                  totalPages := bd_totalPages bookData,
                  currentChapter := 0,
                  currentPage := 1,
                  isLargeFile := bd_isLargeFile bookData\<rparr>
      in renderCurrentChapter (epub_rendering env) a3)"

text \<open>
  In \<open>loadPdf\<close> the alternative of \<open>bookData.chapters || [...]\<close> is never taken: both
  \<open>loadBook\<close> and \<open>mockLoadPdf\<close> return an array, and every array is truthy.
\<close>

definition loadPdf :: "libraries \<Rightarrow> app \<Rightarrow> error option \<times> app" where
  "loadPdf env a =
     (let a1 = a\<lparr>pdfHandler := Some new_PdfHandler, lifecycle := lifecycle a @ [Created PDF]\<rparr>;
          loaded = PdfHandler_loadBook (pdf_open env) new_PdfHandler;
          bookData = fst loaded;
          a2 = a1\<lparr>pdfHandler := Some (snd loaded),
                  chapters := bd_chapters bookData,
                  totalPages := bd_totalPages bookData,
                  currentChapter := 0,
                  currentPage := 1\<rparr>
      in renderCurrentPage a2)"

definition updateUI :: "app \<Rightarrow> app" where
  "updateUI a = updateChaptersList a"

definition openFile :: "file_data option \<Rightarrow> libraries \<Rightarrow> app \<Rightarrow> app" where
  "openFile selected env a =
     (case selected of
        None \<Rightarrow> a
      | Some fileData \<Rightarrow>
          let a1 = a\<lparr>currentBook := Some fileData\<rparr>;
              result = (if extension fileData = ''.epub'' then loadEpub env a1
                        else if extension fileData = ''.pdf'' then loadPdf env a1
                        else (Some UnsupportedFileFormat, a1))
          in (case result of
                (Some e, a2) \<Rightarrow> a2\<lparr>errorsShown := errorsShown a2 @ [e]\<rparr>
              | (None, a2) \<Rightarrow> updateUI a2))"

subsection \<open>Navigation\<close>

text \<open>
  In \<open>goToChapter\<close> the test \<open>if (this.chapters[chapterIndex].pageStart)\<close> is a test for
  truthiness: it fails for an absent \<open>pageStart\<close> and for the number 0.
  \<open>updateNavigation\<close> only writes the page labels and button states and is left out.
\<close>

definition goToChapter :: "epub_render \<Rightarrow> int \<Rightarrow> app \<Rightarrow> error option \<times> app" where
  "goToChapter env chapterIndex a =
     (if chapterIndex \<ge> 0 \<and> chapterIndex < int (length (chapters a))
      then
        let a1 = a\<lparr>currentChapter := chapterIndex\<rparr>;
            a2 = (case pageStart (chapters a1 ! nat chapterIndex) of
                    Some p \<Rightarrow> if p \<noteq> 0 then a1\<lparr>currentPage := p\<rparr> else a1
                  | None \<Rightarrow> a1)
        in (case renderCurrentContent env a2 of
              (Some e, a3) \<Rightarrow> (Some e, a3)
            | (None, a3) \<Rightarrow> (None, updateChaptersList a3))
      else (None, a))"

subsection \<open>Sample files, for concrete evaluation\<close>

definition sample_book :: epub_book where
  "sample_book =
     \<lparr>navigation_toc = Some [\<lparr>toc_label = ''One'', toc_href = ''one.xhtml'', toc_id = ''c1''\<rparr>,
                             \<lparr>toc_label = [], toc_href = ''two.xhtml'', toc_id = []\<rparr>],
      spineItems = Some [\<lparr>item_href = ''one.xhtml'', item_id = ''c1''\<rparr>,
                         \<lparr>item_href = ''two.xhtml'', item_id = ''c2''\<rparr>]\<rparr>"

definition sample_rendering :: epub_render where
  "sample_rendering =
     \<lparr>section_outcome = Body ''<p>x</p>'', spine_outcome = Nothing, dom_innerHTML = Some,
      manifest_rewrite = (\<lambda>html. html), created_blob_urls = [''blob:a'']\<rparr>"

definition sample_libraries :: libraries where
  "sample_libraries =
     \<lparr>epub_open = EpubOpened sample_book, pdf_open = Opened (sample_document 45),
      epub_rendering = sample_rendering\<rparr>"

definition epub_file :: file_data where
  "epub_file = \<lparr>file_name = ''book.epub'', extension = ''.epub''\<rparr>"

definition pdf_file :: file_data where
  "pdf_file = \<lparr>file_name = ''paper.pdf'', extension = ''.pdf''\<rparr>"

text \<open>
  Page numbers count from 1: a chapter either has no \<open>pageStart\<close> or one of at least 1.
  Every chapter list that a loader hands to the application is of this kind (lemmas
  \<open>loadEpub_pages_from_one\<close> and \<open>loadPdf_pages_from_one\<close> below).
\<close>

definition pages_from_one :: "chapter_info list \<Rightarrow> bool" where
  "pages_from_one cs = list_all (\<lambda>c. case pageStart c of None \<Rightarrow> True | Some p \<Rightarrow> 1 \<le> p) cs"

text \<open>An application showing a large EPUB with \<open>n\<close> chapters, at chapter \<open>cur\<close>.\<close>

definition large_epub_app :: "nat \<Rightarrow> int \<Rightarrow> app" where
  "large_epub_app n cur =
     new_EpubizonApp
       \<lparr>currentBook := Some epub_file, currentChapter := cur, currentPage := 1,
        totalPages := estimateTotalPages (loaded_epub n),
        chapters := epub_chapters (loaded_epub n),
        isLargeFile := Some True,
        epubHandler := Some (loaded_epub n)\<rparr>"

section \<open>Page estimate of the EPUB adapter\<close>

text \<open>
  C1, as stated, fails: above 100 chapters the code takes the maximum of the base
  estimate (twice the chapter count) and 1.5 times the chapter count, which is the base
  estimate; and with exactly 50 chapters the factor is still 3. With 150 chapters the
  estimate is 300, not 225; with 50 chapters it is 150, not 100.
\<close>

theorem estimateTotalPages_counterexample:
  "estimateTotalPages (loaded_epub 150) \<noteq> 150 * 1.5 \<and>
   estimateTotalPages (loaded_epub 50) \<noteq> 50 * 2"
  by (simp add: estimateTotalPages_def loaded_epub_def new_EpubHandler_def)

text \<open>
  C1, amended: for a loaded EPUB with a non-empty chapter list, \<open>estimateTotalPages\<close>
  returns the chapter count times 3 when there are at most 50 chapters, and times 2 when
  there are more than 50 (the factor 1.5 never takes effect, the base estimate of twice
  the chapter count being the larger).
\<close>

theorem estimateTotalPages_steps:
  assumes "epub_book h \<noteq> None" and "epub_chapters h \<noteq> []"
  shows "estimateTotalPages h =
           of_nat (length (epub_chapters h)) *
             (if length (epub_chapters h) \<le> 50 then 3 else 2)"
  using assms by (auto simp add: estimateTotalPages_def Let_def max_def)

theorem estimateTotalPages_steps_witness:
  "epub_book (loaded_epub 10) \<noteq> None \<and> epub_chapters (loaded_epub 10) \<noteq> [] \<and>
   estimateTotalPages (loaded_epub 10) = 30 \<and> estimateTotalPages (loaded_epub 60) = 120"
  using estimateTotalPages_steps [of "loaded_epub 10"] estimateTotalPages_steps [of "loaded_epub 60"]
  by (simp add: loaded_epub_def new_EpubHandler_def)

section \<open>Synthetic chapters of the PDF adapter\<close>

text \<open>
  The loop of \<open>createChaptersFromPages\<close> in closed form: its \<open>k\<close>-th chapter is the loop
  body at \<open>i = k * chaptersPerSection\<close>, and there is a \<open>k\<close>-th chapter exactly when that
  \<open>i\<close> is below the page count.
\<close>

lemma chaptersPerSection_pos: "0 < chaptersPerSection t"
  by (simp add: chaptersPerSection_def)

lemma chapters_from_length_iff:
  "k < length (chapters_from t i) \<longleftrightarrow> i + int k * chaptersPerSection t < t"
proof (induction t i arbitrary: k rule: chapters_from.induct)
  case (1 t i)
  show ?case
  proof (cases "i < t")
    case False
    have "0 \<le> int k * chaptersPerSection t"
      using chaptersPerSection_pos [of t] by simp
    with False show ?thesis
      by (simp add: chapters_from.simps [of t i])
  next
    case True
    show ?thesis
    proof (cases k)
      case 0
      with True show ?thesis by (simp add: chapters_from.simps [of t i])
    next
      case (Suc j)
      with True "1.IH" [OF True, of j] show ?thesis
        by (simp add: chapters_from.simps [of t i] algebra_simps)
    qed
  qed
qed

lemma chapters_from_nth:
  "k < length (chapters_from t i) \<Longrightarrow>
   chapters_from t i ! k = page_chapter t (i + int k * chaptersPerSection t)"
proof (induction t i arbitrary: k rule: chapters_from.induct)
  case (1 t i)
  show ?case
  proof (cases "i < t")
    case False
    with "1.prems" show ?thesis by (simp add: chapters_from.simps [of t i])
  next
    case True
    show ?thesis
    proof (cases k)
      case 0
      with True show ?thesis by (simp add: chapters_from.simps [of t i])
    next
      case (Suc j)
      with True "1.prems" have "j < length (chapters_from t (i + chaptersPerSection t))"
        by (simp add: chapters_from.simps [of t i])
      from "1.IH" [OF True this] Suc True show ?thesis
        by (simp add: chapters_from.simps [of t i] algebra_simps)
    qed
  qed
qed

lemma page_chapter_start: "pageStart (page_chapter t i) = Some (i + 1)"
  by (simp add: page_chapter_def Let_def)

lemma page_chapter_end: "pageEnd (page_chapter t i) = Some (min (i + chaptersPerSection t) t)"
  by (simp add: page_chapter_def Let_def)

lemma page_chapter_title:
  "title (page_chapter t i) =
     (if i = 0 then ''Introduction''
      else if min (i + chaptersPerSection t) t = t then ''Conclusion''
      else ''Chapter '' @ string_of_int (i div chaptersPerSection t + 1))"
  by (simp add: page_chapter_def Let_def)

lemma chapters_nonempty: "1 \<le> t \<Longrightarrow> chapters_from t 0 \<noteq> []"
  using chapters_from_length_iff [of 0 t 0] by simp

lemma chapters_last_index:
  assumes "1 \<le> t"
  obtains m where "length (chapters_from t 0) = Suc m"
    and "int m * chaptersPerSection t < t"
    and "t \<le> int m * chaptersPerSection t + chaptersPerSection t"
proof -
  from chapters_nonempty [OF assms] obtain m where m: "length (chapters_from t 0) = Suc m"
    by (cases "chapters_from t 0") auto
  have "m < length (chapters_from t 0)" using m by simp
  then have lt: "int m * chaptersPerSection t < t"
    using chapters_from_length_iff [of m t 0] by simp
  have "\<not> Suc m < length (chapters_from t 0)" using m by simp
  then have "\<not> int (Suc m) * chaptersPerSection t < t"
    using chapters_from_length_iff [of "Suc m" t 0] by simp
  then have "t \<le> int m * chaptersPerSection t + chaptersPerSection t"
    by (simp add: algebra_simps)
  with m lt show thesis by (rule that)
qed

lemma chapters_from_at_most_13:
  assumes "1 \<le> t"
  shows "length (chapters_from t 0) \<le> 13"
proof (rule ccontr)
  assume "\<not> length (chapters_from t 0) \<le> 13"
  then have "13 < length (chapters_from t 0)" by simp
  then have "int 13 * chaptersPerSection t < t"
    using chapters_from_length_iff [of 13 t 0] by simp
  then show False
    by (simp add: chaptersPerSection_def max_def split: if_splits)
qed


text \<open>
  C4: for every page count of at least 1, the page ranges of the chapters that
  \<open>createChaptersFromPages\<close> returns start at page 1, end at the last page, follow each
  other without gap or overlap (each range starts one page after the end of the range
  before it), are non-empty and have \<open>max 1 (totalPages div 7)\<close> pages each, except
  possibly the last, which has at most as many; the first chapter is titled
  "Introduction" and, when there is more than one chapter, the last is titled
  "Conclusion".
\<close>

theorem createChaptersFromPages_partition:
  assumes "1 \<le> pdf_totalPages h"
  shows "createChaptersFromPages h \<noteq> [] \<and>
         pageStart (hd (createChaptersFromPages h)) = Some 1 \<and>
         pageEnd (last (createChaptersFromPages h)) = Some (pdf_totalPages h) \<and>
         (\<forall>k. Suc k < length (createChaptersFromPages h) \<longrightarrow>
            (\<exists>b. pageEnd (createChaptersFromPages h ! k) = Some b \<and>
                 pageStart (createChaptersFromPages h ! Suc k) = Some (b + 1))) \<and>
         (\<forall>k < length (createChaptersFromPages h).
            \<exists>a b. pageStart (createChaptersFromPages h ! k) = Some a \<and>
                  pageEnd (createChaptersFromPages h ! k) = Some b \<and> a \<le> b \<and>
                  b - a + 1 \<le> max 1 (pdf_totalPages h div 7) \<and>
                  (Suc k < length (createChaptersFromPages h) \<longrightarrow>
                     b - a + 1 = max 1 (pdf_totalPages h div 7))) \<and>
         title (hd (createChaptersFromPages h)) = ''Introduction'' \<and>
         (1 < length (createChaptersFromPages h) \<longrightarrow>
            title (last (createChaptersFromPages h)) = ''Conclusion'')"
proof -
  let ?t = "pdf_totalPages h"
  let ?c = "chaptersPerSection ?t"
  let ?cs = "chapters_from ?t 0"
  have cs: "createChaptersFromPages h = ?cs" by (simp add: createChaptersFromPages_def)
  have c: "max 1 (?t div 7) = ?c" by (simp add: chaptersPerSection_def)
  have cpos: "0 < ?c" by (rule chaptersPerSection_pos)
  have ne: "?cs \<noteq> []" by (rule chapters_nonempty [OF assms])
  have nth: "\<And>k. k < length ?cs \<Longrightarrow> ?cs ! k = page_chapter ?t (int k * ?c)"
    using chapters_from_nth [of _ ?t 0] by simp
  have len: "\<And>k. k < length ?cs \<longleftrightarrow> int k * ?c < ?t"
    using chapters_from_length_iff [of _ ?t 0] by simp
  have hd0: "hd ?cs = page_chapter ?t 0"
    using ne nth [of 0] by (simp add: hd_conv_nth)
  from chapters_last_index [OF assms] obtain m where m: "length ?cs = Suc m"
    and li: "int m * ?c < ?t" "?t \<le> int m * ?c + ?c"
    by blast
  have lst: "last ?cs = page_chapter ?t (int m * ?c)"
    using ne nth [of m] m by (simp add: last_conv_nth)
  have p1: "pageStart (hd ?cs) = Some 1" by (simp add: hd0 page_chapter_start)
  have p2: "pageEnd (last ?cs) = Some ?t"
    using li by (simp add: lst page_chapter_end min_def)
  have p3: "\<exists>b. pageEnd (?cs ! k) = Some b \<and> pageStart (?cs ! Suc k) = Some (b + 1)"
    if "Suc k < length ?cs" for k
  proof -
    from that have k: "k < length ?cs" by simp
    from that have "int (Suc k) * ?c < ?t" using len [of "Suc k"] by simp
    then have "int k * ?c + ?c < ?t" by (simp add: algebra_simps)
    then show ?thesis
      by (simp add: nth [OF k] nth [OF that] page_chapter_start page_chapter_end min_def algebra_simps)
  qed
  have p4: "\<exists>a b. pageStart (?cs ! k) = Some a \<and> pageEnd (?cs ! k) = Some b \<and> a \<le> b \<and>
                  b - a + 1 \<le> ?c \<and> (Suc k < length ?cs \<longrightarrow> b - a + 1 = ?c)"
    if "k < length ?cs" for k
  proof -
    from that have lt: "int k * ?c < ?t" using len [of k] by simp
    have "Suc k < length ?cs \<Longrightarrow> int k * ?c + ?c < ?t"
      using len [of "Suc k"] by (simp add: algebra_simps)
    with lt cpos show ?thesis
      by (auto simp add: nth [OF that] page_chapter_start page_chapter_end min_def)
  qed
  have p5: "title (hd ?cs) = ''Introduction''" by (simp add: hd0 page_chapter_title)
  have p6: "title (last ?cs) = ''Conclusion''" if "1 < length ?cs"
  proof -
    from that m have "0 < m" by simp
    with li cpos show ?thesis by (simp add: lst page_chapter_title min_def)
  qed
  show ?thesis
    unfolding cs c using ne p1 p2 p3 p4 p5 p6 by blast
qed

theorem createChaptersFromPages_partition_witness:
  "1 \<le> pdf_totalPages (loaded_pdf 45) \<and>
   length (createChaptersFromPages (loaded_pdf 45)) = 8 \<and>
   pageStart (hd (createChaptersFromPages (loaded_pdf 45))) = Some 1 \<and>
   pageEnd (last (createChaptersFromPages (loaded_pdf 45))) = Some 45 \<and>
   title (hd (createChaptersFromPages (loaded_pdf 45))) = ''Introduction'' \<and>
   title (last (createChaptersFromPages (loaded_pdf 45))) = ''Conclusion''"
proof -
  have t: "pdf_totalPages (loaded_pdf 45) = 45"
    by (simp add: loaded_pdf_def PdfHandler_loadBook_def sample_document_def Let_def)
  have n: "length (createChaptersFromPages (loaded_pdf 45)) = 8"
    by (simp add: createChaptersFromPages_def t chapters_from.simps chaptersPerSection_def)
  from createChaptersFromPages_partition [of "loaded_pdf 45"] t n show ?thesis
    by simp
qed

section \<open>Page numbers out of range\<close>

lemma loaded_pdf_totalPages: "pdf_totalPages (loaded_pdf n) = n"
  by (simp add: loaded_pdf_def PdfHandler_loadBook_def sample_document_def Let_def)


text \<open>
  C7: for every page number below 1 or above \<open>totalPages\<close>, \<open>renderPage\<close> and
  \<open>getPageText\<close> fail with the error "Invalid page number" and leave the adapter, and so
  its text cache, as it was.
\<close>

theorem page_out_of_range:
  assumes "n < 1 \<or> n > pdf_totalPages h"
  shows "renderPage h n = (Inl InvalidPageNumber, h) \<and>
         getPageText h n = (Inl InvalidPageNumber, h) \<and>
         pdf_textContent (snd (renderPage h n)) = pdf_textContent h \<and>
         pdf_textContent (snd (getPageText h n)) = pdf_textContent h"
  using assms by (auto simp add: renderPage_def getPageText_def)

theorem page_out_of_range_witness:
  "((0::int) < 1 \<or> 0 > pdf_totalPages (loaded_pdf 45)) \<and>
   renderPage (loaded_pdf 45) 0 = (Inl InvalidPageNumber, loaded_pdf 45) \<and>
   getPageText (loaded_pdf 45) 0 = (Inl InvalidPageNumber, loaded_pdf 45) \<and>
   ((46::int) < 1 \<or> 46 > pdf_totalPages (loaded_pdf 45)) \<and>
   renderPage (loaded_pdf 45) 46 = (Inl InvalidPageNumber, loaded_pdf 45) \<and>
   getPageText (loaded_pdf 45) 46 = (Inl InvalidPageNumber, loaded_pdf 45)"
  using page_out_of_range [of 0 "loaded_pdf 45"] page_out_of_range [of 46 "loaded_pdf 45"]
  by (simp add: loaded_pdf_totalPages)

section \<open>The text cache\<close>

lemma getChapterText_twice:
  assumes "0 \<le> i" and "i < int (length (epub_chapters e))"
  shows "\<exists>t e1. getChapterText e i = (Inr t, e1) \<and> epub_textContent e1 i = Some t \<and>
                getChapterText e1 i = (Inr t, e1)"
proof (cases "epub_textContent e i")
  case (Some cached)
  with assms have "getChapterText e i = (Inr cached, e)"
    by (simp add: getChapterText_def)
  with Some show ?thesis by simp
next
  case None
  define e1 where "e1 = snd (getChapterText e i)"
  define t where "t = mockText (epub_chapters e ! nat i)"
  from None assms have first: "getChapterText e i = (Inr t, e1)"
    by (simp add: e1_def t_def getChapterText_def Let_def)
  from None assms have cache: "epub_textContent e1 i = Some t"
    and len: "epub_chapters e1 = epub_chapters e"
    by (simp_all add: e1_def t_def getChapterText_def Let_def)
  from assms cache len have "getChapterText e1 i = (Inr t, e1)"
    by (simp add: getChapterText_def)
  with first cache show ?thesis by blast
qed

lemma getPageText_twice:
  assumes "1 \<le> n" and "n \<le> pdf_totalPages p"
  shows "\<exists>t p1. getPageText p n = (Inr t, p1) \<and> pdf_textContent p1 n = Some t \<and>
                getPageText p1 n = (Inr t, p1)"
proof (cases "pdf_textContent p n")
  case (Some cached)
  with assms have "getPageText p n = (Inr cached, p)"
    by (simp add: getPageText_def)
  with Some show ?thesis by simp
next
  case None
  define p1 where "p1 = snd (getPageText p n)"
  obtain cleaned where t: "getPageText p n = (Inr cleaned, p1)"
    using None assms by (simp add: p1_def getPageText_def Let_def)
  from None assms t have cache: "pdf_textContent p1 n = Some cleaned"
    and tot: "pdf_totalPages p1 = pdf_totalPages p"
    by (auto simp add: p1_def getPageText_def Let_def)
  from assms cache tot have "getPageText p1 n = (Inr cleaned, p1)"
    by (simp add: getPageText_def)
  with t cache show ?thesis by blast
qed

text \<open>
  C5: for every valid unit index of a loaded document, \<open>getChapterText\<close> (EPUB) and
  \<open>getPageText\<close> (PDF) return a text and store it in the cache under that index, and a
  second call returns the same text and leaves the adapter exactly as the first call left
  it: the cache is unchanged and the list of extractions has no new entry.
\<close>

theorem getUnitText_twice:
  "(0 \<le> i \<and> i < int (length (epub_chapters e)) \<longrightarrow>
      (\<exists>t e1. getChapterText e i = (Inr t, e1) \<and> epub_textContent e1 i = Some t \<and>
              getChapterText e1 i = (Inr t, e1))) \<and>
   (1 \<le> n \<and> n \<le> pdf_totalPages p \<longrightarrow>
      (\<exists>t p1. getPageText p n = (Inr t, p1) \<and> pdf_textContent p1 n = Some t \<and>
              getPageText p1 n = (Inr t, p1)))"
  using getChapterText_twice [of i e] getPageText_twice [of n p] by blast

theorem getUnitText_twice_witness:
  "(0::int) \<le> 3 \<and> 3 < int (length (epub_chapters (loaded_epub 10))) \<and>
   (1::int) \<le> 7 \<and> 7 \<le> pdf_totalPages (loaded_pdf 45) \<and>
   (\<exists>t e1. getChapterText (loaded_epub 10) 3 = (Inr t, e1) \<and> epub_textContent e1 3 = Some t \<and>
           getChapterText e1 3 = (Inr t, e1)) \<and>
   (\<exists>t p1. getPageText (loaded_pdf 45) 7 = (Inr t, p1) \<and> pdf_textContent p1 7 = Some t \<and>
           getPageText p1 7 = (Inr t, p1)) \<and>
   fst (getPageText (loaded_pdf 45) 7) = Inr ''Hello world''"
proof -
  have a: "(0::int) \<le> 3 \<and> 3 < int (length (epub_chapters (loaded_epub 10)))"
    by (simp add: loaded_epub_def new_EpubHandler_def)
  have b: "(1::int) \<le> 7 \<and> 7 \<le> pdf_totalPages (loaded_pdf 45)"
    by (simp add: loaded_pdf_totalPages)
  have c: "fst (getPageText (loaded_pdf 45) 7) = Inr ''Hello world''"
    by (simp add: getPageText_def loaded_pdf_def PdfHandler_loadBook_def sample_document_def
        sample_page_def new_PdfHandler_def Let_def page_text_real_def clean_page_text_def
        trim_def is_ws_def is_line_terminator_def)
  from getUnitText_twice [of 3 "loaded_epub 10" 7 "loaded_pdf 45"] a b c show ?thesis
    by blast
qed

section \<open>Teardown of an adapter\<close>

text \<open>
  C8: \<open>destroy\<close> empties the text cache of either adapter; on the EPUB adapter it passes
  every tracked blob URL to \<open>URL.revokeObjectURL\<close> and empties the set; and \<open>destroy\<close>
  after \<open>destroy\<close> is \<open>destroy\<close>. The model has no failing outcome for \<open>destroy\<close>: its
  own statements cannot throw, and the second call finds no URL to revoke and no library
  object to call.
\<close>

theorem destroy_idempotent:
  "epub_textContent (EpubHandler_destroy e) = Map.empty \<and>
   imageBlobUrls (EpubHandler_destroy e) = [] \<and>
   revoked (EpubHandler_destroy e) = revoked e @ imageBlobUrls e \<and>
   EpubHandler_destroy (EpubHandler_destroy e) = EpubHandler_destroy e \<and>
   pdf_textContent (PdfHandler_destroy p) = Map.empty \<and>
   PdfHandler_destroy (PdfHandler_destroy p) = PdfHandler_destroy p"
  by (simp add: EpubHandler_destroy_def PdfHandler_destroy_def)


theorem destroy_idempotent_witness:
  "revoked (EpubHandler_destroy
     (snd (renderChapter sample_rendering
            (snd (getChapterText (loaded_epub 10) 3)) 3))) = [''blob:a''] \<and>
   epub_textContent (snd (getChapterText (loaded_epub 10) 3)) 3 \<noteq> None \<and>
   epub_textContent (EpubHandler_destroy
     (snd (renderChapter sample_rendering
            (snd (getChapterText (loaded_epub 10) 3)) 3))) = Map.empty \<and>
   pdf_textContent (snd (getPageText (loaded_pdf 45) 7)) 7 \<noteq> None \<and>
   pdf_textContent (PdfHandler_destroy (snd (getPageText (loaded_pdf 45) 7))) = Map.empty"
proof -
  have "revoked (snd (renderChapter sample_rendering
            (snd (getChapterText (loaded_epub 10) 3)) 3)) = []"
    and "imageBlobUrls (snd (renderChapter sample_rendering
            (snd (getChapterText (loaded_epub 10) 3)) 3)) = [''blob:a'']"
    and "epub_textContent (snd (getChapterText (loaded_epub 10) 3)) 3 \<noteq> None"
    by (simp_all add: renderChapter_def getChapterText_def loaded_epub_def new_EpubHandler_def
        Let_def track_all_def sample_rendering_def)
  moreover have "pdf_textContent (snd (getPageText (loaded_pdf 45) 7)) 7 \<noteq> None"
    by (simp add: getPageText_def Let_def loaded_pdf_def PdfHandler_loadBook_def
        sample_document_def new_PdfHandler_def)
  ultimately show ?thesis
    using destroy_idempotent [of "snd (renderChapter sample_rendering
            (snd (getChapterText (loaded_epub 10) 3)) 3)" "snd (getPageText (loaded_pdf 45) 7)"]
    by simp
qed

section \<open>Navigation to a chapter\<close>

text \<open>Rendering and the chapter list leave the position and the chapters alone.\<close>

lemma renderCurrentPage_nav:
  "currentChapter (snd (renderCurrentPage a)) = currentChapter a \<and>
   currentPage (snd (renderCurrentPage a)) = currentPage a \<and>
   chapters (snd (renderCurrentPage a)) = chapters a \<and>
   isLargeFile (snd (renderCurrentPage a)) = isLargeFile a \<and>
   lifecycle (snd (renderCurrentPage a)) = lifecycle a"
  by (simp add: renderCurrentPage_def split: option.splits prod.splits sum.splits)

lemma renderCurrentChapter_nav:
  "currentChapter (snd (renderCurrentChapter env a)) = currentChapter a \<and>
   currentPage (snd (renderCurrentChapter env a)) = currentPage a \<and>
   chapters (snd (renderCurrentChapter env a)) = chapters a \<and>
   isLargeFile (snd (renderCurrentChapter env a)) = isLargeFile a \<and>
   lifecycle (snd (renderCurrentChapter env a)) = lifecycle a"
  by (simp add: renderCurrentChapter_def split: option.splits prod.splits sum.splits)

lemma renderCurrentContent_nav:
  "currentChapter (snd (renderCurrentContent env a)) = currentChapter a \<and>
   currentPage (snd (renderCurrentContent env a)) = currentPage a \<and>
   chapters (snd (renderCurrentContent env a)) = chapters a"
  by (simp add: renderCurrentContent_def renderCurrentPage_nav renderCurrentChapter_nav
      split: option.splits)

lemma updateChaptersList_nav:
  "currentChapter (updateChaptersList a) = currentChapter a \<and>
   currentPage (updateChaptersList a) = currentPage a \<and>
   chapters (updateChaptersList a) = chapters a"
  by (simp add: updateChaptersList_def Let_def)

lemma goToChapter_nav:
  "currentChapter (snd (goToChapter env i a)) =
     (if 0 \<le> i \<and> i < int (length (chapters a)) then i else currentChapter a) \<and>
   currentPage (snd (goToChapter env i a)) =
     (if 0 \<le> i \<and> i < int (length (chapters a))
      then (case pageStart (chapters a ! nat i) of
              Some p \<Rightarrow> if p \<noteq> 0 then p else currentPage a
            | None \<Rightarrow> currentPage a)
      else currentPage a)"
proof (cases "0 \<le> i \<and> i < int (length (chapters a))")
  case False
  then show ?thesis by (auto simp add: goToChapter_def)
next
  case True
  define a2 where "a2 = (case pageStart (chapters a ! nat i) of
                    Some p \<Rightarrow> if p \<noteq> 0 then a\<lparr>currentChapter := i, currentPage := p\<rparr>
                              else a\<lparr>currentChapter := i\<rparr>
                  | None \<Rightarrow> a\<lparr>currentChapter := i\<rparr>)"
  have a2: "currentChapter a2 = i"
    "currentPage a2 = (case pageStart (chapters a ! nat i) of
              Some p \<Rightarrow> if p \<noteq> 0 then p else currentPage a
            | None \<Rightarrow> currentPage a)"
    by (simp_all add: a2_def split: option.splits)
  have g: "snd (goToChapter env i a) =
             (case fst (renderCurrentContent env a2) of
                Some e \<Rightarrow> snd (renderCurrentContent env a2)
              | None \<Rightarrow> updateChaptersList (snd (renderCurrentContent env a2)))"
    using True
    by (cases "renderCurrentContent env a2")
      (auto simp add: goToChapter_def Let_def a2_def split: option.splits)
  show ?thesis
    using True a2 renderCurrentContent_nav [of env a2]
    by (simp add: g updateChaptersList_nav split: option.splits)
qed

text \<open>Both loaders hand over chapter lists whose page numbers count from 1.\<close>

lemma chapters_from_pages_from_one: "0 \<le> i \<Longrightarrow> pages_from_one (chapters_from t i)"
proof (induction t i rule: chapters_from.induct)
  case (1 t i)
  show ?case
  proof (cases "i < t")
    case True
    have "0 \<le> i + chaptersPerSection t"
      using "1.prems" chaptersPerSection_pos [of t] by simp
    with "1.IH" [OF True] have "pages_from_one (chapters_from t (i + chaptersPerSection t))" .
    with True "1.prems" show ?thesis
      by (simp add: chapters_from.simps [of t i] pages_from_one_def page_chapter_start)
  next
    case False
    then show ?thesis by (simp add: chapters_from.simps [of t i] pages_from_one_def)
  qed
qed

lemma PdfHandler_loadBook_pages_from_one:
  "pages_from_one (bd_chapters (fst (PdfHandler_loadBook env h)))"
  by (cases env)
    (simp_all add: PdfHandler_loadBook_def mockLoadPdf_def Let_def createChaptersFromPages_def
      chapters_from_pages_from_one, simp_all add: pages_from_one_def pdf_chapter_def)

lemma loadPdf_chapters:
  "chapters (snd (loadPdf env a)) = bd_chapters (fst (PdfHandler_loadBook (pdf_open env) new_PdfHandler))"
  by (simp add: loadPdf_def Let_def renderCurrentPage_nav)

lemma loadPdf_pages_from_one: "pages_from_one (chapters (snd (loadPdf env a)))"
  by (simp add: loadPdf_chapters PdfHandler_loadBook_pages_from_one)

lemma extractChaptersLazy_no_pages:
  "list_all (\<lambda>c. pageStart c = None) (epub_chapters h) \<Longrightarrow>
   list_all (\<lambda>c. pageStart c = None) (epub_chapters (extractChaptersLazy h))"
  by (auto simp add: extractChaptersLazy_def fallback_chapters_def lazy_chapter_def
      toc_chapter_def spine_chapter_def list_all_iff Let_def split: option.splits)

lemma EpubHandler_loadBook_no_pages:
  "list_all (\<lambda>c. pageStart c = None) (bd_chapters (fst (EpubHandler_loadBook env new_EpubHandler)))"
  by (cases env)
    (auto simp add: EpubHandler_loadBook_def mockLoadBook_def Let_def epub_mock_chapter_def
      new_EpubHandler_def extractChaptersLazy_def fallback_chapters_def lazy_chapter_def
      toc_chapter_def spine_chapter_def list_all_iff split: option.splits)

lemma loadEpub_chapters:
  "chapters (snd (loadEpub env a)) = bd_chapters (fst (EpubHandler_loadBook (epub_open env) new_EpubHandler))"
  by (simp add: loadEpub_def Let_def renderCurrentChapter_nav)

lemma loadEpub_pages_from_one: "pages_from_one (chapters (snd (loadEpub env a)))"
  using EpubHandler_loadBook_no_pages [of "epub_open env"]
  by (simp add: loadEpub_chapters pages_from_one_def list_all_iff)


lemma sample_pdf_chapters:
  "chapters_from 45 0 =
     [pdf_chapter ''Introduction'' 1 6, pdf_chapter ''Chapter 2'' 7 12,
      pdf_chapter ''Chapter 3'' 13 18, pdf_chapter ''Chapter 4'' 19 24,
      pdf_chapter ''Chapter 5'' 25 30, pdf_chapter ''Chapter 6'' 31 36,
      pdf_chapter ''Chapter 7'' 37 42, pdf_chapter ''Conclusion'' 43 45]"
  by (simp add: chapters_from.simps chaptersPerSection_def page_chapter_def pdf_chapter_def
      Let_def string_of_int_def string_of_nat.simps digit_char_def)

lemma sample_pdf_app_chapters:
  "chapters (snd (loadPdf sample_libraries a)) = chapters_from 45 0"
  by (simp add: loadPdf_chapters sample_libraries_def PdfHandler_loadBook_def Let_def
      createChaptersFromPages_def sample_document_def)

text \<open>
  C6: in an application whose chapters have page numbers counting from 1 (as every
  loaded chapter list has), \<open>goToChapter\<close> with an index inside \<open>[0, chapters.length)\<close>
  sets \<open>currentChapter\<close> to that index and, if the chapter defines \<open>pageStart\<close>, sets
  \<open>currentPage\<close> to it; with an index outside the range it leaves \<open>currentChapter\<close> and
  \<open>currentPage\<close> unchanged.
\<close>

theorem goToChapter_sets_position:
  assumes "pages_from_one (chapters a)"
  shows "(0 \<le> i \<and> i < int (length (chapters a)) \<longrightarrow>
            currentChapter (snd (goToChapter env i a)) = i \<and>
            (\<forall>p. pageStart (chapters a ! nat i) = Some p \<longrightarrow>
                 currentPage (snd (goToChapter env i a)) = p)) \<and>
         (\<not> (0 \<le> i \<and> i < int (length (chapters a))) \<longrightarrow>
            currentChapter (snd (goToChapter env i a)) = currentChapter a \<and>
            currentPage (snd (goToChapter env i a)) = currentPage a)"
proof -
  have "p \<noteq> 0" if "0 \<le> i" "i < int (length (chapters a))"
    "pageStart (chapters a ! nat i) = Some p" for p
  proof -
    from that have "nat i < length (chapters a)" by simp
    with assms have "case pageStart (chapters a ! nat i) of None \<Rightarrow> True | Some p \<Rightarrow> 1 \<le> p"
      by (simp add: pages_from_one_def list_all_length)
    with that show ?thesis by simp
  qed
  then show ?thesis
    using goToChapter_nav [of env i a] by (auto split: option.splits)
qed

theorem goToChapter_sets_position_witness:
  "pages_from_one (chapters (snd (loadPdf sample_libraries new_EpubizonApp))) \<and>
   (0::int) \<le> 3 \<and> 3 < int (length (chapters (snd (loadPdf sample_libraries new_EpubizonApp)))) \<and>
   currentChapter (snd (goToChapter (epub_rendering sample_libraries) 3 (snd (loadPdf sample_libraries new_EpubizonApp)))) = 3 \<and>
   currentPage (snd (goToChapter (epub_rendering sample_libraries) 3 (snd (loadPdf sample_libraries new_EpubizonApp)))) = 19 \<and>
   \<not> (8 < int (length (chapters (snd (loadPdf sample_libraries new_EpubizonApp))))) \<and>
   currentChapter (snd (goToChapter (epub_rendering sample_libraries) 8 (snd (loadPdf sample_libraries new_EpubizonApp)))) = 0 \<and>
   currentPage (snd (goToChapter (epub_rendering sample_libraries) 8 (snd (loadPdf sample_libraries new_EpubizonApp)))) = 1"
proof -
  let ?a = "snd (loadPdf sample_libraries new_EpubizonApp)"
  have inv: "pages_from_one (chapters ?a)" by (rule loadPdf_pages_from_one)
  have ch: "chapters ?a = chapters_from 45 0" by (rule sample_pdf_app_chapters)
  have cur: "currentChapter ?a = 0" "currentPage ?a = 1"
    by (simp_all add: loadPdf_def Let_def renderCurrentPage_nav)
  from goToChapter_sets_position [OF inv, of 3 "epub_rendering sample_libraries"] goToChapter_sets_position [OF inv, of 8 "epub_rendering sample_libraries"]
  show ?thesis
    using inv cur by (simp add: ch sample_pdf_chapters pdf_chapter_def)
qed


section \<open>Replacing the loaded document\<close>

lemma updateChaptersList_handlers:
  "lifecycle (updateChaptersList a) = lifecycle a \<and>
   epubHandler (updateChaptersList a) = epubHandler a \<and>
   pdfHandler (updateChaptersList a) = pdfHandler a"
  by (simp add: updateChaptersList_def Let_def)

lemma renderCurrentPage_epubHandler:
  "epubHandler (snd (renderCurrentPage a)) = epubHandler a"
  by (simp add: renderCurrentPage_def split: option.splits prod.splits sum.splits)

lemma renderCurrentChapter_epubHandler:
  "epubHandler a \<noteq> None \<Longrightarrow> epubHandler (snd (renderCurrentChapter env a)) \<noteq> None"
  by (auto simp add: renderCurrentChapter_def split: option.splits prod.splits sum.splits)

lemma loadPdf_lifecycle:
  "lifecycle (snd (loadPdf env a)) = lifecycle a @ [Created PDF] \<and>
   epubHandler (snd (loadPdf env a)) = epubHandler a"
  by (simp add: loadPdf_def Let_def renderCurrentPage_nav renderCurrentPage_epubHandler)

lemma loadEpub_lifecycle:
  "lifecycle (snd (loadEpub env a)) =
     lifecycle a @ (if epubHandler a = None then [] else [Destroyed EPUB]) @ [Created EPUB] \<and>
   epubHandler (snd (loadEpub env a)) \<noteq> None"
  by (cases "epubHandler a")
    (simp_all add: loadEpub_def Let_def renderCurrentChapter_nav renderCurrentChapter_epubHandler)

lemma openFile_pdf_lifecycle:
  "lifecycle (openFile (Some pdf_file) env a) = lifecycle a @ [Created PDF] \<and>
   epubHandler (openFile (Some pdf_file) env a) = epubHandler a"
proof -
  obtain r b where l: "loadPdf env (a\<lparr>currentBook := Some pdf_file\<rparr>) = (r, b)"
    by (cases "loadPdf env (a\<lparr>currentBook := Some pdf_file\<rparr>)")
  from loadPdf_lifecycle [of env "a\<lparr>currentBook := Some pdf_file\<rparr>"] l
  have "lifecycle b = lifecycle a @ [Created PDF]" "epubHandler b = epubHandler a"
    by simp_all
  with l show ?thesis
    by (cases r) (simp_all add: openFile_def pdf_file_def Let_def updateUI_def
        updateChaptersList_handlers)
qed

lemma openFile_epub_lifecycle:
  "lifecycle (openFile (Some epub_file) env a) =
     lifecycle a @ (if epubHandler a = None then [] else [Destroyed EPUB]) @ [Created EPUB] \<and>
   epubHandler (openFile (Some epub_file) env a) \<noteq> None"
proof -
  obtain r b where l: "loadEpub env (a\<lparr>currentBook := Some epub_file\<rparr>) = (r, b)"
    by (cases "loadEpub env (a\<lparr>currentBook := Some epub_file\<rparr>)")
  from loadEpub_lifecycle [of env "a\<lparr>currentBook := Some epub_file\<rparr>"] l
  have "lifecycle b =
     lifecycle a @ (if epubHandler a = None then [] else [Destroyed EPUB]) @ [Created EPUB]"
    "epubHandler b \<noteq> None"
    by simp_all
  with l show ?thesis
    by (cases r) (simp_all add: openFile_def epub_file_def Let_def updateUI_def
        updateChaptersList_handlers)
qed

text \<open>
  C2 does not hold of the code. \<open>loadEpub\<close> calls \<open>destroy()\<close> on a previous EPUB adapter
  before it constructs the new one, but \<open>loadPdf\<close> constructs its adapter without any
  \<open>destroy()\<close>, and \<open>loadEpub\<close> never looks at a previous PDF adapter. Of the four orders
  of two consecutive file opens, only EPUB after EPUB tears the previous adapter down.
\<close>

theorem teardown_before_replacement_fails:
  "lifecycle (openFile (Some pdf_file) sample_libraries
               (openFile (Some pdf_file) sample_libraries new_EpubizonApp))
     = [Created PDF, Created PDF] \<and>
   lifecycle (openFile (Some pdf_file) sample_libraries
               (openFile (Some epub_file) sample_libraries new_EpubizonApp))
     = [Created EPUB, Created PDF] \<and>
   lifecycle (openFile (Some epub_file) sample_libraries
               (openFile (Some pdf_file) sample_libraries new_EpubizonApp))
     = [Created PDF, Created EPUB] \<and>
   lifecycle (openFile (Some epub_file) sample_libraries
               (openFile (Some epub_file) sample_libraries new_EpubizonApp))
     = [Created EPUB, Destroyed EPUB, Created EPUB]"
proof -
  have init: "lifecycle new_EpubizonApp = []" "epubHandler new_EpubizonApp = None"
    by (simp_all add: new_EpubizonApp_def)
  show ?thesis
    by (simp add: openFile_pdf_lifecycle openFile_epub_lifecycle init)
qed



section \<open>The chapter list\<close>

lemma displayed_append: "displayed (xs @ ys) = displayed xs @ displayed ys"
  by (induction xs rule: displayed.induct) simp_all

lemma displayed_chapter_items: "displayed (map (chapter_item a) is) = is"
  by (induction "is") (simp_all add: chapter_item_def)

lemma showChapterRange_displayed:
  "displayed (chaptersList (showChapterRange s e a)) = [s..min e (int (length (chapters a))) - 1]"
  by (simp add: showChapterRange_def Let_def displayed_append displayed_chapter_items)

lemma updateChaptersList_displayed:
  assumes "truthy_bool (isLargeFile a)" and "100 < length (chapters a)"
  shows "displayed (chaptersList (updateChaptersList a)) =
           [max 0 (currentChapter a - 25)..
            min (int (length (chapters a))) (max 0 (currentChapter a - 25) + 50) - 1]"
  using assms
  by (simp add: updateChaptersList_def Let_def displayed_append displayed_chapter_items)

lemma updateChaptersList_leading:
  assumes "truthy_bool (isLargeFile a)" and "100 < length (chapters a)"
    and "25 < currentChapter a"
  shows "hd (chaptersList (updateChaptersList a)) =
           ChapterJump (chapters_before (currentChapter a - 25)) 0 50"
  using assms by (simp add: updateChaptersList_def Let_def)

lemma showChapterRange_leading:
  assumes "0 < s"
  shows "hd (chaptersList (showChapterRange s e a)) =
           ChapterJump (chapters_before s) (max 0 (s - 50)) s"
  using assms by (simp add: showChapterRange_def Let_def)

lemma showChapterRange_trailing:
  assumes "e < int (length (chapters a))"
  shows "last (chaptersList (showChapterRange s e a)) =
           ChapterJump (chapters_after (int (length (chapters a)) - e)) e
             (min (int (length (chapters a))) (e + 50))"
  using assms by (simp add: showChapterRange_def Let_def)

lemma showChapterRange_chapters: "chapters (showChapterRange s e a) = chapters a"
  by (simp add: showChapterRange_def Let_def)

lemma updateChaptersList_chapters: "chapters (updateChaptersList a) = chapters a"
  by (simp add: updateChaptersList_def Let_def)

lemma large_epub_app_fields:
  "truthy_bool (isLargeFile (large_epub_app n cur))"
  "length (chapters (large_epub_app n cur)) = n"
  "currentChapter (large_epub_app n cur) = cur"
  by (simp_all add: large_epub_app_def new_EpubizonApp_def loaded_epub_def truthy_bool_def)

text \<open>
  C3 does not hold of the code for the window that \<open>updateChaptersList\<close> displays: its
  leading affordance calls \<open>showChapterRange(0, 50)\<close>, whatever the window. With 300
  chapters and the current chapter 150 the window is \<open>[125, 175)\<close>; activating "125
  chapters before" displays \<open>[0, 50)\<close>, not \<open>[75, 125)\<close>. (The affordances that
  \<open>showChapterRange\<close> itself creates, and the trailing one of \<open>updateChaptersList\<close>, are as
  the claim says: lemmas \<open>showChapterRange_leading\<close>, \<open>showChapterRange_trailing\<close>.)
\<close>

theorem leading_affordance_of_updateChaptersList:
  "displayed (chaptersList (updateChaptersList (large_epub_app 300 150))) = [125..174] \<and>
   hd (chaptersList (updateChaptersList (large_epub_app 300 150))) =
     ChapterJump ''... (125 chapters before)'' 0 50 \<and>
   displayed (chaptersList
     (click (hd (chaptersList (updateChaptersList (large_epub_app 300 150))))
        (updateChaptersList (large_epub_app 300 150)))) = [0..49] \<and>
   [0..49] \<noteq> [max 0 (125 - 50)..125 - 1]"
proof -
  let ?a = "large_epub_app 300 150"
  have w: "displayed (chaptersList (updateChaptersList ?a)) = [125..174]"
    using updateChaptersList_displayed [of ?a] by (simp add: large_epub_app_fields)
  have j: "hd (chaptersList (updateChaptersList ?a)) = ChapterJump ''... (125 chapters before)'' 0 50"
    using updateChaptersList_leading [of ?a]
    by (simp add: large_epub_app_fields chapters_before_def string_of_int_def
        string_of_nat.simps digit_char_def)
  have c: "displayed (chaptersList (click (hd (chaptersList (updateChaptersList ?a)))
             (updateChaptersList ?a))) = [0..49]"
    by (simp add: j showChapterRange_displayed updateChaptersList_chapters large_epub_app_fields)
  have "hd [0..49] \<noteq> hd [max 0 (125 - 50)..125 - (1::int)]"
    by (simp add: upto.simps)
  then have d: "[0..49] \<noteq> [max 0 (125 - 50)..125 - (1::int)]" by metis
  from w j c d show ?thesis by blast
qed


lemma PdfHandler_loadBook_at_most_13:
  "length (bd_chapters (fst (PdfHandler_loadBook load h))) \<le> 13"
proof (cases load)
  case (Opened doc)
  show ?thesis
  proof (cases "1 \<le> numPages doc")
    case True
    with Opened show ?thesis
      by (simp add: PdfHandler_loadBook_def Let_def createChaptersFromPages_def
          chapters_from_at_most_13)
  next
    case False
    then have "chapters_from (numPages doc) 0 = []"
      by (simp add: chapters_from.simps [of "numPages doc" 0])
    with Opened show ?thesis
      by (simp add: PdfHandler_loadBook_def Let_def createChaptersFromPages_def)
  qed
qed (simp_all add: PdfHandler_loadBook_def mockLoadPdf_def)

lemma PdfHandler_loadBook_isLargeFile:
  "bd_isLargeFile (fst (PdfHandler_loadBook load h)) = None"
  by (cases load) (simp_all add: PdfHandler_loadBook_def mockLoadPdf_def Let_def)

lemma updateChaptersList_small:
  "length (chapters b) \<le> 100 \<Longrightarrow>
   chaptersList (updateChaptersList b) =
     map (chapter_item b) [0..int (length (chapters b)) - 1]"
  by (simp add: updateChaptersList_def Let_def)

text \<open>
  C10: the descriptor that \<open>PdfHandler.loadBook\<close> returns has no \<open>isLargeFile\<close> field, on
  the real and on the mock path; for every page count of at least 1 the synthesized
  chapter list has at most 13 entries; and in every state of the application whose
  chapters are those of a PDF load, whatever \<open>isLargeFile\<close> was left behind by an earlier
  EPUB, the large-file condition of \<open>updateChaptersList\<close> is false and the list shows one
  item per chapter, with no jump affordance and no counter.
\<close>

theorem pdf_list_never_windowed:
  "bd_isLargeFile (fst (PdfHandler_loadBook load h)) = None \<and>
   (1 \<le> pdf_totalPages h \<longrightarrow> length (createChaptersFromPages h) \<le> 13) \<and>
   (chapters b = chapters (snd (loadPdf env a)) \<longrightarrow>
      \<not> (truthy_bool (isLargeFile b) \<and> int (length (chapters b)) > 100) \<and>
      chaptersList (updateChaptersList b) =
        map (chapter_item b) [0..int (length (chapters b)) - 1])"
proof -
  have "length (chapters (snd (loadPdf env a))) \<le> 13"
    by (simp add: loadPdf_chapters PdfHandler_loadBook_at_most_13)
  then have small: "length (chapters b) \<le> 100" if "chapters b = chapters (snd (loadPdf env a))"
    using that by simp
  have "bd_isLargeFile (fst (PdfHandler_loadBook load h)) = None"
    by (rule PdfHandler_loadBook_isLargeFile)
  moreover have "1 \<le> pdf_totalPages h \<longrightarrow> length (createChaptersFromPages h) \<le> 13"
    by (simp add: createChaptersFromPages_def chapters_from_at_most_13)
  moreover have "\<not> (truthy_bool (isLargeFile b) \<and> int (length (chapters b)) > 100)"
    if "chapters b = chapters (snd (loadPdf env a))"
    using small [OF that] by simp
  moreover have "chaptersList (updateChaptersList b) =
        map (chapter_item b) [0..int (length (chapters b)) - 1]"
    if "chapters b = chapters (snd (loadPdf env a))"
    using small [OF that] by (rule updateChaptersList_small)
  ultimately show ?thesis by blast
qed

theorem pdf_list_never_windowed_witness:
  "isLargeFile (snd (loadPdf sample_libraries (large_epub_app 300 150))) = Some True \<and>
   length (chapters (snd (loadPdf sample_libraries (large_epub_app 300 150)))) = 8 \<and>
   displayed (chaptersList (updateChaptersList (snd (loadPdf sample_libraries (large_epub_app 300 150)))))
     = [0, 1, 2, 3, 4, 5, 6, 7]"
proof -
  let ?b = "snd (loadPdf sample_libraries (large_epub_app 300 150))"
  have l: "isLargeFile ?b = Some True"
    by (simp add: loadPdf_def Let_def renderCurrentPage_nav large_epub_app_def new_EpubizonApp_def)
  have n: "length (chapters ?b) = 8"
    by (simp add: sample_pdf_app_chapters sample_pdf_chapters)
  have u: "[0..int (length (chapters ?b)) - 1] = [0, 1, 2, 3, 4, 5, 6, 7]"
    by (simp add: n upto.simps)
  from pdf_list_never_windowed [of LibraryFails new_PdfHandler ?b sample_libraries "large_epub_app 300 150"]
  have "chaptersList (updateChaptersList ?b) = map (chapter_item ?b) [0..int (length (chapters ?b)) - 1]"
    by simp
  then have "displayed (chaptersList (updateChaptersList ?b)) = [0, 1, 2, 3, 4, 5, 6, 7]"
    by (simp only: u) (simp add: chapter_item_def)
  with l n show ?thesis by simp
qed


section \<open>Cleaning of chapter markup\<close>

text \<open>Case folding and the places where a pattern can start.\<close>

lemma lower_eq_lt [simp]: "lower c = CHR ''<'' \<longleftrightarrow> c = CHR ''<''"
  by (auto simp add: lower_def split: option.splits if_splits)

lemma ci_prefix_Nil [simp]: "ci_prefix [] s"
  by (simp add: ci_prefix_def)

lemma ci_prefix_Cons_Nil [simp]: "\<not> ci_prefix (x # xs) []"
  by (simp add: ci_prefix_def)

lemma ci_prefix_Cons [simp]:
  "ci_prefix (x # xs) (c # cs) \<longleftrightarrow> lower c = x \<and> ci_prefix xs cs"
  by (auto simp add: ci_prefix_def)

lemma ci_prefix_append:
  "map lower tag = tag \<Longrightarrow> ci_prefix (tag @ p) (tag @ s) = ci_prefix p s"
  by (induction tag) auto

lemma match_element_not_lt: "c \<noteq> CHR ''<'' \<Longrightarrow> match_element tag (c # cs) = None"
  by (simp add: match_element_def)

lemma has_open_no_lt: "CHR ''<'' \<notin> set s \<Longrightarrow> \<not> has_open tag s"
  by (induction s) auto

lemma has_open_append: "CHR ''<'' \<notin> set pre \<Longrightarrow> has_open tag (pre @ s) = has_open tag s"
  by (induction pre) auto

lemma strip_elements_no_open: "\<not> has_open tag s \<Longrightarrow> strip_elements tag s = s"
  by (induction s) (auto simp add: match_element_def)

lemma strip_elements_text:
  "CHR ''<'' \<notin> set pre \<Longrightarrow> strip_elements tag (pre @ s) = pre @ strip_elements tag s"
  by (induction pre) (auto simp add: match_element_not_lt)

lemma find_close_suffix: "find_close tag b = Some r \<Longrightarrow> suffix r b"
proof (induction b)
  case Nil
  then show ?case by simp
next
  case (Cons c cs)
  show ?case
  proof (cases "ci_prefix (''</'' @ tag @ ''>'') (c # cs)")
    case True
    with Cons.prems have "r = drop (length tag + 3) (c # cs)" by simp
    then show ?thesis by (simp only: suffix_drop)
  next
    case False
    with Cons.prems have "find_close tag cs = Some r"
      by (simp split: if_splits)
    then have "suffix r cs" by (rule Cons.IH)
    then show ?thesis by (rule suffix_ConsI)
  qed
qed

lemma match_element_suffix:
  assumes "match_element tag s = Some r"
  shows "suffix r s"
proof -
  from assms obtain gt content
    where d: "dropWhile (\<lambda>c. c \<noteq> CHR ''>'') (drop (Suc (length tag)) s) = gt # content"
      and f: "find_close tag content = Some r"
    by (auto simp add: match_element_def split: if_splits list.splits)
  have "suffix r content" using f by (rule find_close_suffix)
  also have "suffix content (gt # content)" by (simp add: suffix_ConsI)
  also have "suffix (gt # content) (drop (Suc (length tag)) s)"
    unfolding d [symmetric] by (rule suffix_dropWhile)
  also have "suffix (drop (Suc (length tag)) s) s" by (rule suffix_drop)
  finally show ?thesis .
qed

lemma strip_elements_subseq: "subseq (strip_elements tag s) s"
proof (induction tag s rule: strip_elements.induct)
  case (1 tag)
  then show ?case by simp
next
  case (2 tag c cs)
  show ?case
  proof (cases "match_element tag (c # cs)")
    case None
    from "2.IH"(1) [OF None] have "subseq (strip_elements tag cs) cs" .
    with None show ?thesis by simp
  next
    case (Some rest)
    from "2.IH"(2) [OF Some] have "subseq (strip_elements tag rest) rest" .
    moreover have "subseq rest (c # cs)"
      using match_element_suffix [OF Some] by (rule suffix_imp_subseq)
    ultimately have "subseq (strip_elements tag rest) (c # cs)"
      by (rule subseq_order.trans)
    with Some show ?thesis by simp
  qed
qed

lemma trim_subseq: "subseq (trim s) s"
proof -
  have "suffix (dropWhile is_ws (rev (dropWhile is_ws s))) (rev (dropWhile is_ws s))"
    by (rule suffix_dropWhile)
  then have "prefix (trim s) (dropWhile is_ws s)"
    by (simp add: trim_def suffix_to_prefix)
  then have "subseq (trim s) (dropWhile is_ws s)" by (rule prefix_imp_subseq)
  moreover have "subseq (dropWhile is_ws s) s"
    using suffix_dropWhile by (rule suffix_imp_subseq)
  ultimately show ?thesis by (rule subseq_order.trans)
qed

lemma find_close_content:
  assumes "map lower tag = tag"
    and "\<forall>c \<in> set content. c \<noteq> CHR ''<'' \<and> \<not> is_line_terminator c"
  shows "find_close tag (content @ ''</'' @ tag @ ''>'' @ post) = Some post"
  using assms(2)
proof (induction content)
  case Nil
  have "ci_prefix (tag @ ''>'') (tag @ ''>'' @ post)"
    using assms(1) by (simp add: ci_prefix_append lower_def)
  moreover have "drop (length tag + 3) (''</'' @ tag @ ''>'' @ post) = post"
    by (simp add: eval_nat_numeral)
  ultimately show ?case by (simp add: lower_def)
next
  case (Cons c cs)
  then show ?case by simp
qed

lemma match_element_element:
  assumes "map lower tag = tag"
    and "CHR ''>'' \<notin> set attrs"
    and "\<forall>c \<in> set content. c \<noteq> CHR ''<'' \<and> \<not> is_line_terminator c"
  shows "match_element tag (element tag attrs content @ post) = Some post"
proof -
  have p: "ci_prefix (CHR ''<'' # tag) (element tag attrs content @ post)"
    using assms(1) ci_prefix_append [of tag "[]"] by (simp add: element_def)
  have d: "dropWhile (\<lambda>c. c \<noteq> CHR ''>'')
             (attrs @ CHR ''>'' # content @ ''</'' @ tag @ ''>'' @ post)
           = CHR ''>'' # content @ ''</'' @ tag @ ''>'' @ post"
    using assms(2) by (auto simp add: dropWhile_append3)
  show ?thesis
    using p d find_close_content [OF assms(1,3), of post]
    by (simp add: match_element_def element_def)
qed

lemma strip_elements_element:
  assumes "map lower tag = tag"
    and "CHR ''<'' \<notin> set pre"
    and "CHR ''>'' \<notin> set attrs"
    and "\<forall>c \<in> set content. c \<noteq> CHR ''<'' \<and> \<not> is_line_terminator c"
  shows "strip_elements tag (pre @ element tag attrs content @ post) = pre @ strip_elements tag post"
proof -
  have e: "element tag attrs content @ post = CHR ''<'' # tl (element tag attrs content @ post)"
    by (simp add: element_def)
  have "strip_elements tag (element tag attrs content @ post) = strip_elements tag post"
    using match_element_element [OF assms(1,3,4), of post]
    by (subst e, subst strip_elements.simps) (simp add: e [symmetric])
  with assms(2) show ?thesis by (simp add: strip_elements_text)
qed


text \<open>
  An element that lies on one line, standing between text without \<open><\<close>, is removed: this
  is what the patterns are written for.
\<close>

lemma strip_elements_single:
  assumes "map lower tag = tag"
    and "CHR ''<'' \<notin> set pre" and "CHR ''>'' \<notin> set attrs"
    and "\<forall>c \<in> set content. c \<noteq> CHR ''<'' \<and> \<not> is_line_terminator c"
    and "CHR ''<'' \<notin> set post"
  shows "strip_elements tag (pre @ element tag attrs content @ post) = pre @ post"
  using assms
  by (simp add: strip_elements_element strip_elements_no_open has_open_no_lt)

lemma direct_load_returns_raw:
  assumes "\<not> has_open ''img'' htmlContent"
    and "\<not> str_includes (processHtmlContent parse htmlContent) ''blob:''"
    and "\<not> str_includes (processHtmlContent parse htmlContent) ''data:image''"
  shows "processHtmlContentWithDirectLoad parse rewrite htmlContent = htmlContent"
  using assms
  by (simp add: processHtmlContentWithDirectLoad_def processImagesFromManifest_def Let_def)

text \<open>
  C9 does not hold of the code. The two patterns are written to remove script and head
  elements, but their \<open>.\<close> does not match a line terminator, so an element whose content
  contains a line break is not matched and stays in the markup. For a chapter whose
  body is \<open><p>a</p><script>\<close>, line break, \<open>alert(1)\<close>, line break, \<open></script>\<close>, both
  \<open>processHtmlContent\<close> and \<open>cleanHtmlContentBasic\<close> return the markup unchanged, script
  element included, and \<open>renderChapter\<close> hands it on for display.
\<close>

theorem multiline_script_survives:
  "processHtmlContent Some ''<p>a</p><script>\<newline>alert(1)\<newline></script>''
     = ''<p>a</p><script>\<newline>alert(1)\<newline></script>'' \<and>
   cleanHtmlContentBasic ''<p>a</p><script>\<newline>alert(1)\<newline></script>''
     = ''<p>a</p><script>\<newline>alert(1)\<newline></script>'' \<and>
   fst (renderChapter
          (sample_rendering
             \<lparr>section_outcome := Body ''<p>a</p><script>\<newline>alert(1)\<newline></script>''\<rparr>)
          (loaded_epub 10) 0)
     = Inr ''<p>a</p><script>\<newline>alert(1)\<newline></script>'' \<and>
   str_includes ''<p>a</p><script>\<newline>alert(1)\<newline></script>'' ''<script>''"
proof -
  let ?x = "''<p>a</p><script>\<newline>alert(1)\<newline></script>''"
  have script: "strip_elements ''script'' ?x = ?x"
    by (simp add: match_element_def is_line_terminator_def lower_def)
  have style: "strip_elements ''style'' ?x = ?x"
    by (rule strip_elements_no_open) (simp add: lower_def)
  have head: "strip_elements ''head'' ?x = ?x"
    by (rule strip_elements_no_open) (simp add: lower_def)
  have trimmed: "trim ?x = ?x"
    by (simp add: trim_def is_ws_def)
  have p: "processHtmlContent Some ?x = ?x"
    by (simp only: processHtmlContent_def option.case script head trimmed)
  have c: "cleanHtmlContentBasic ?x = ?x"
    by (simp only: cleanHtmlContentBasic_def script style head trimmed)
  have "chapter_markup (sample_rendering\<lparr>section_outcome := Body ?x\<rparr>) (loaded_epub 10) 0
          = processHtmlContent Some ?x"
    by (simp add: chapter_markup_def Let_def sample_rendering_def loaded_epub_def
        new_EpubHandler_def sample_chapter_def truthy_str_def)
  then have r: "fst (renderChapter (sample_rendering\<lparr>section_outcome := Body ?x\<rparr>)
                      (loaded_epub 10) 0) = Inr ?x"
    by (simp add: renderChapter_def p loaded_epub_def new_EpubHandler_def)
  have i: "str_includes ?x ''<script>''"
    by simp
  from p c r i show ?thesis by (intro conjI)
qed

text \<open>
  Where the chapter comes from the spine and no image of it was resolved,
  \<open>processHtmlContentWithDirectLoad\<close> returns the raw markup, so that even a script
  element written on one line is displayed.
\<close>

lemma direct_load_shows_script:
  "fst (renderChapter
          (sample_rendering
             \<lparr>section_outcome := Nothing,
              spine_outcome := Body ''<p>a</p><script>alert(1)</script>''\<rparr>)
          (loaded_epub 10) 0)
     = Inr ''<p>a</p><script>alert(1)</script>''"
proof -
  let ?y = "''<p>a</p><script>alert(1)</script>''"
  have script: "strip_elements ''script'' ?y = ''<p>a</p>''"
    by (simp add: match_element_def is_line_terminator_def lower_def)
  have head: "strip_elements ''head'' ''<p>a</p>'' = ''<p>a</p>''"
    by (rule strip_elements_no_open) (simp add: lower_def)
  have trimmed: "trim ''<p>a</p>'' = ''<p>a</p>''"
    by (simp add: trim_def is_ws_def)
  have p: "processHtmlContent Some ?y = ''<p>a</p>''"
    by (simp only: processHtmlContent_def option.case script head trimmed)
  have d: "processHtmlContentWithDirectLoad Some (\<lambda>html. html) ?y = ?y"
    by (rule direct_load_returns_raw) (simp_all add: p lower_def)
  have "chapter_markup (sample_rendering\<lparr>section_outcome := Nothing, spine_outcome := Body ?y\<rparr>)
          (loaded_epub 10) 0 = processHtmlContentWithDirectLoad Some (\<lambda>html. html) ?y"
    by (simp add: chapter_markup_def Let_def sample_rendering_def loaded_epub_def
        new_EpubHandler_def sample_chapter_def truthy_str_def)
  then show ?thesis
    by (simp add: renderChapter_def d loaded_epub_def new_EpubHandler_def)
qed

end
